theory Spec2Isabelle
  imports Complex_Main "HOL-Library.Sublist"
begin

section \<open>The command-line driver \<open>run_tgen.py\<close>\<close>

text \<open>
  The driver parses its command line with Python's \<open>getopt\<close>, then calls the
  candidate generator, the rankers, the planners and the evaluator of the \<open>tgen\<close>
  package. The model below follows the driver statement by statement. Calls into other
  modules are recorded as events of a trace, in the order the driver makes them; the
  values they return are taken from an environment record, and every such call may raise.
\<close>

subsection \<open>Errors\<close>

datatype py_error =
    GetoptError string string  \<comment> \<open>message, offending option\<close>
  | ValueError string  \<comment> \<open>\<open>int()\<close>, \<open>float()\<close>, \<open>max([])\<close>, \<open>xrange\<close> with step 0\<close>
  | OverflowError  \<comment> \<open>\<open>xrange\<close> beyond a C long\<close>
  | SystemExit string  \<comment> \<open>\<open>sys.exit(message)\<close>\<close>
  | ExternalError string  \<comment> \<open>an exception raised inside a called module\<close>

subsection \<open>\<open>getopt.getopt\<close> of the Python standard library, short options only\<close>

text \<open>
  \<^verbatim>\<open>
  def short_has_arg(opt, shortopts):
      for i in range(len(shortopts)):
          if opt == shortopts[i] != ':':
              return shortopts.startswith(':', i+1)
      raise GetoptError('option -%s not recognized' % opt, opt)
  \<close>
\<close>

fun short_has_arg :: "char \<Rightarrow> string \<Rightarrow> py_error + bool" where
  "short_has_arg opt [] = Inl (GetoptError (''option -'' @ [opt] @ '' not recognized'') [opt])"
| "short_has_arg opt (c # rest) =
     (if opt = c \<and> c \<noteq> CHR '':'' then Inr (case rest of [] \<Rightarrow> False | d # _ \<Rightarrow> d = CHR '':'')
      else short_has_arg opt rest)"

text \<open>
  \<^verbatim>\<open>
  def do_shorts(opts, optstring, shortopts, args):
      while optstring != '':
          opt, optstring = optstring[0], optstring[1:]
          if short_has_arg(opt, shortopts):
              if optstring == '':
                  if not args:
                      raise GetoptError('option -%s requires argument' % opt, opt)
                  optstring, args = args[0], args[1:]
              optarg, optstring = optstring, ''
          else:
              optarg = ''
          opts.append(('-' + opt, optarg))
      return opts, args
  \<close>
\<close>

type_synonym optlist = "(string \<times> string) list"

fun do_shorts :: "optlist \<Rightarrow> string \<Rightarrow> string \<Rightarrow> string list \<Rightarrow> py_error + (optlist \<times> string list)" where
  "do_shorts opts [] shortopts args = Inr (opts, args)"
| "do_shorts opts (opt # optstring) shortopts args =
     (case short_has_arg opt shortopts of
        Inl e \<Rightarrow> Inl e
      | Inr True \<Rightarrow>
          (if optstring = [] then
             (case args of
                [] \<Rightarrow> Inl (GetoptError (''option -'' @ [opt] @ '' requires argument'') [opt])
              | a # args' \<Rightarrow> Inr (opts @ [(CHR ''-'' # [opt], a)], args'))
           else Inr (opts @ [(CHR ''-'' # [opt], optstring)], args))
      | Inr False \<Rightarrow> do_shorts (opts @ [(CHR ''-'' # [opt], [])]) optstring shortopts args)"

text \<open>
  With an empty list of long options, \<open>do_longs\<close> cuts the option name at the first
  \<open>=\<close> and then always raises, since \<open>long_has_args\<close> finds no candidate:
  \<^verbatim>\<open>
  possibilities = [o for o in longopts if o.startswith(opt)]
  if not possibilities:
      raise GetoptError('option --%s not recognized' % opt, opt)
  \<close>
\<close>

definition do_longs_empty :: "string \<Rightarrow> py_error" where
  "do_longs_empty opt =
     (let name = takeWhile (\<lambda>c. c \<noteq> CHR ''='') opt
      in GetoptError (''option --'' @ name @ '' not recognized'') name)"

text \<open>
  \<^verbatim>\<open>
  def getopt(args, shortopts, longopts = []):
      opts = []
      ...
      while args and args[0].startswith('-') and args[0] != '-':
          if args[0] == '--':
              args = args[1:]
              break
          if args[0].startswith('--'):
              opts, args = do_longs(opts, args[0][2:], longopts, args[1:])
          else:
              opts, args = do_shorts(opts, args[0][1:], shortopts, args[1:])
      return opts, args
  \<close>
\<close>

function getopt_loop :: "optlist \<Rightarrow> string list \<Rightarrow> string \<Rightarrow> py_error + (optlist \<times> string list)" where
  "getopt_loop opts [] shortopts = Inr (opts, [])"
| "getopt_loop opts (a # args) shortopts =
     (if \<not> (a \<noteq> [] \<and> hd a = CHR ''-'' \<and> a \<noteq> ''-'') then Inr (opts, a # args)
      else if a = ''--'' then Inr (opts, args)
      else if take 2 a = ''--'' then Inl (do_longs_empty (drop 2 a))
      else (case do_shorts opts (tl a) shortopts args of
              Inl e \<Rightarrow> Inl e
            | Inr (opts', args') \<Rightarrow> getopt_loop opts' args' shortopts))"
  by pat_completeness auto
termination
proof (relation "measure (\<lambda>(opts, args, shortopts). length args)")
  show "wf (measure (\<lambda>(opts, args, shortopts). length args))"
    by simp
next
  fix opts :: optlist and a :: string and args :: "string list" and shortopts :: string
    and x :: "optlist \<times> string list" and opts' :: optlist and args' :: "string list"
  assume run: "do_shorts opts (tl a) shortopts args = Inr x" and x: "(opts', args') = x"
  have shrink: "do_shorts os optstring shortopts args = Inr (os', as') \<Longrightarrow> length as' \<le> length args"
    for os optstring os' as'
    by (induction optstring arbitrary: os)
       (auto split: sum.splits bool.splits if_splits list.splits)
  from run x have "length args' \<le> length args"
    using shrink [of opts "tl a" opts' args'] by simp
  then show "((opts', args', shortopts), (opts, a # args, shortopts))
      \<in> measure (\<lambda>(opts, args, shortopts). length args)"
    by simp
qed

definition getopt :: "string list \<Rightarrow> string \<Rightarrow> py_error + (optlist \<times> string list)" where
  "getopt args shortopts = getopt_loop [] args shortopts"

subsection \<open>Values the driver handles\<close>

type_synonym fname = string

text \<open>A dialogue act is a sequence of items (intent type, slot, value).\<close>

type_synonym da = "(string \<times> string \<times> string) list"

text \<open>The state of the process-wide generator of Python's \<open>random\<close> module.\<close>

type_synonym rng_state = nat

text \<open>
  The arguments of a \<open>%\<close>-formatted message; a message is kept as its format string
  and its arguments, unformatted.
\<close>

datatype fmt_arg = S string | D int | F rat

type_synonym message = "string \<times> fmt_arg list"

text \<open>
  A tree document is a sequence of bundles; a bundle holds, per zone (language and
  selector), a tree and a sentence text. Trees are opaque to the driver: type \<open>'t\<close>.
\<close>

type_synonym zone_key = "string \<times> string"

record 't doc_bundle =
  zones :: "(zone_key \<times> 't) list"
  texts :: "(zone_key \<times> message) list"

type_synonym 't document = "'t doc_bundle list"

text \<open>
  Objects of the \<open>tgen\<close> classes, written as the constructor call with its arguments
  and what was done to the object since.
\<close>

datatype cg_state = Untrained | Trained fname fname | Loaded fname

datatype model_obj =
    RandomCandidateGenerator "(string \<times> int) list" cg_state
  | PerceptronRanker_from_file fname

datatype cfg_val = Str string | Num int | Obj model_obj

text \<open>
  A configuration: the file \<open>Config(fname)\<close> was read from, if any, and the entries the
  driver has set since.
\<close>

record config =
  cfg_source :: "fname option"
  cfg_set :: "(string \<times> cfg_val) list"

datatype ranker_obj =
    PerceptronRanker config
  | ParallelPerceptronRanker config string

datatype planner_kind = SamplingPlanner | ASearchPlanner

datatype eval_type = NODE | DEP

subsection \<open>The trace of calls into other modules\<close>

datatype 't event =
    RandomSeed int
  | LogInfo string "fmt_arg list"
  | LogDebug string "fmt_arg list"
  | SetDebugStream fname
  | CandgenNew "(string \<times> int) list"
  | CandgenTrain fname fname
  | CandgenSave model_obj fname
  | CandgenLoad fname
  | ConfigLoad fname
  | RankerNew ranker_obj
  | RankerTrain ranker_obj fname fname rat
  | RankerSave ranker_obj fname
  | RankerLoad fname
  | PlannerNew planner_kind config
  | ReadDas fname
  | ReadTTrees fname
  | GenerateTree planner_kind da bool
  | AnalyzerAppend 't "'t list" "'t list"
  | EvaluatorAppend 't 't
  | WriteYAML fname "'t document"

subsection \<open>The environment\<close>

text \<open>
  What the driver takes from outside of this file: the platform, the builtins \<open>int\<close> and
  \<open>float\<close> on a command-line string (\<open>None\<close> where they raise \<open>ValueError\<close>), the
  contents of the input files, and the functions of the modules \<open>tgen.planner\<close>,
  \<open>tgen.eval\<close> and \<open>tgen.futil\<close> that are not part of the driver. Floats are the
  rationals they denote. \<open>raises\<close> tells, from the trace up to and including a call and
  the state of the random generator, whether that call raises; \<open>advance\<close> is what a call
  does to the random generator.
\<close>

record 't env =
  python_implementation :: string
  python_version :: string
  sys_maxint :: int
  py_int :: "string \<Rightarrow> int option"
  py_float :: "string \<Rightarrow> rat option"
  os_path_split :: "string \<Rightarrow> string \<times> string"
  seed_state :: "int \<Rightarrow> rng_state"
  raises :: "'t event list \<Rightarrow> rng_state \<Rightarrow> py_error option"
  advance :: "'t event \<Rightarrow> rng_state \<Rightarrow> rng_state"
  das_of_file :: "fname \<Rightarrow> da list"
  doc_of_file :: "fname \<Rightarrow> 't document"
  planner_language :: "config \<Rightarrow> string"
  planner_selector :: "config \<Rightarrow> string"
  sample_tree :: "config \<Rightarrow> rng_state \<Rightarrow> da \<Rightarrow> 't"
  asearch_tree :: "config \<Rightarrow> rng_state \<Rightarrow> da \<Rightarrow> 't option \<times> 't list \<times> 't list"
  tree_data :: "'t \<Rightarrow> 't"
  corr_pred_gold :: "'t \<Rightarrow> 't \<Rightarrow> int \<times> int \<times> int"
  f1_from_counts :: "int \<Rightarrow> int \<Rightarrow> int \<Rightarrow> rat"
  p_r_f1_from_counts :: "int \<Rightarrow> int \<Rightarrow> int \<Rightarrow> rat \<times> rat \<times> rat"
  lists_stats :: "('t \<times> 't list \<times> 't list) list \<Rightarrow> rat \<times> rat \<times> rat"
  evaluator_p_r_f1 :: "eval_type \<Rightarrow> ('t \<times> 't) list \<Rightarrow> rat \<times> rat \<times> rat"

subsection \<open>The state of a run, and running with exceptions\<close>

text \<open>
  The random generator, the trace so far, and the store of \<open>Document\<close> objects: a
  document is referred to by its index in the store, so that two names of one document
  see each other's changes.
\<close>

record 't world =
  rng :: rng_state
  trace :: "'t event list"
  heap :: "'t document list"

type_synonym ('t, 'a) prog = "'t world \<Rightarrow> (py_error + 'a) \<times> 't world"

definition ret :: "'a \<Rightarrow> ('t, 'a) prog" where
  "ret x = (\<lambda>w. (Inr x, w))"

definition raise :: "py_error \<Rightarrow> ('t, 'a) prog" where
  "raise e = (\<lambda>w. (Inl e, w))"

definition bnd :: "('t, 'a) prog \<Rightarrow> ('a \<Rightarrow> ('t, 'b) prog) \<Rightarrow> ('t, 'b) prog" where
  "bnd m f = (\<lambda>w. case m w of (Inl e, w') \<Rightarrow> (Inl e, w') | (Inr x, w') \<Rightarrow> f x w')"

definition lift :: "py_error + 'a \<Rightarrow> ('t, 'a) prog" where
  "lift r = (\<lambda>w. (r, w))"

definition sys_exit :: "string \<Rightarrow> ('t, 'a) prog" where
  "sys_exit msg = raise (SystemExit msg)"

definition emit :: "'t event \<Rightarrow> ('t, unit) prog" where
  "emit e = (\<lambda>w. (Inr (), w\<lparr>trace := trace w @ [e]\<rparr>))"

definition log_info :: "string \<Rightarrow> fmt_arg list \<Rightarrow> ('t, unit) prog" where
  "log_info fmt args = emit (LogInfo fmt args)"

definition log_debug :: "string \<Rightarrow> fmt_arg list \<Rightarrow> ('t, unit) prog" where
  "log_debug fmt args = emit (LogDebug fmt args)"

text \<open>A call into another module: recorded, then it raises or returns.\<close>

definition ext :: "'t env \<Rightarrow> 't event \<Rightarrow> ('t, unit) prog" where
  "ext env e = (\<lambda>w.
     let tr = trace w @ [e] in
     case raises env tr (rng w) of
       Some err \<Rightarrow> (Inl err, w\<lparr>trace := tr\<rparr>)
     | None \<Rightarrow> (Inr (), w\<lparr>rng := advance env e (rng w), trace := tr\<rparr>))"

text \<open>\<open>random.seed(n)\<close>\<close>

definition random_seed :: "'t env \<Rightarrow> int \<Rightarrow> ('t, unit) prog" where
  "random_seed env n = (\<lambda>w. (Inr (), w\<lparr>rng := seed_state env n, trace := trace w @ [RandomSeed n]\<rparr>))"

text \<open>\<open>Document()\<close>, and a document read from a file, enter the store.\<close>

definition new_document :: "'t document \<Rightarrow> ('t, nat) prog" where
  "new_document d = (\<lambda>w. (Inr (length (heap w)), w\<lparr>heap := heap w @ [d]\<rparr>))"

definition get_document :: "nat \<Rightarrow> ('t, 't document) prog" where
  "get_document r = (\<lambda>w. (Inr (heap w ! r), w))"

definition for_each :: "'a list \<Rightarrow> ('a \<Rightarrow> ('t, unit) prog) \<Rightarrow> ('t, unit) prog" where
  "for_each xs body = foldr (\<lambda>x rest. bnd (body x) (\<lambda>_. rest)) xs (ret ())"

definition get_rng :: "('t, rng_state) prog" where
  "get_rng = (\<lambda>w. (Inr (rng w), w))"

definition update_document :: "nat \<Rightarrow> ('t document \<Rightarrow> 't document) \<Rightarrow> ('t, unit) prog" where
  "update_document r f = (\<lambda>w. (Inr (), w\<lparr>heap := (heap w)[r := f (heap w ! r)]\<rparr>))"

subsection \<open>Functions of \<open>tgen.futil\<close> and \<open>tgen.planner\<close> on documents\<close>

text \<open>
  Modelled from the spec: \<open>ttrees_from_doc\<close> and \<open>trees_from_doc\<close> of the module
  \<open>tgen.futil\<close> are not among the sources. They give the trees of a document under one
  language and selector, one per bundle, in the order of the bundles (the spec's
  tree-document reader "providing gold and generated trees"); \<open>trees_from_doc\<close>
  converts each to the planner's own tree data. A bundle without that zone raises.
\<close>

fun ttrees_from_doc :: "'t document \<Rightarrow> string \<Rightarrow> string \<Rightarrow> py_error + 't list" where
  "ttrees_from_doc [] language selector = Inr []"
| "ttrees_from_doc (b # bs) language selector =
     (case map_of (zones b) (language, selector) of
        None \<Rightarrow> Inl (ExternalError ''no such zone'')
      | Some t \<Rightarrow>
          (case ttrees_from_doc bs language selector of
             Inl e \<Rightarrow> Inl e
           | Inr ts \<Rightarrow> Inr (t # ts)))"

definition trees_from_doc :: "'t env \<Rightarrow> 't document \<Rightarrow> string \<Rightarrow> string \<Rightarrow> py_error + 't list" where
  "trees_from_doc env d language selector =
     (case ttrees_from_doc d language selector of
        Inl e \<Rightarrow> Inl e
      | Inr ts \<Rightarrow> Inr (map (tree_data env) ts))"

text \<open>
  Modelled from the spec: \<open>generate_tree\<close> of the planners (module \<open>tgen.planner\<close>) is
  not among the sources. By the spec, the generated trees are "written into an output
  tree-document in the same order as the input DialogueActs": a tree goes into the first
  bundle that has no tree under the planner's language and selector, and into a new
  bundle at the end of the document when every bundle has one.
\<close>

fun doc_add_tree :: "zone_key \<Rightarrow> 't \<Rightarrow> 't document \<Rightarrow> 't document" where
  "doc_add_tree key t [] = [\<lparr>zones = [(key, t)], texts = []\<rparr>]"
| "doc_add_tree key t (b # bs) =
     (if map_of (zones b) key = None then b\<lparr>zones := zones b @ [(key, t)]\<rparr> # bs
      else b # doc_add_tree key t bs)"

definition target_zone :: "'t env \<Rightarrow> config \<Rightarrow> zone_key" where
  "target_zone env cfg = (planner_language env cfg, planner_selector env cfg)"

text \<open>
  Modelled from the spec: the sampling planner draws one complete tree for the dialogue
  act from the candidate generator's distribution, using the process-wide random
  generator, and writes it into the document.
\<close>

definition sampling_generate_tree :: "'t env \<Rightarrow> config \<Rightarrow> da \<Rightarrow> nat \<Rightarrow> ('t, unit) prog" where
  "sampling_generate_tree env cfg da gen_doc =
     bnd get_rng (\<lambda>r.
     bnd (ext env (GenerateTree SamplingPlanner da False)) (\<lambda>_.
     update_document gen_doc (doc_add_tree (target_zone env cfg) (sample_tree env cfg r da))))"

text \<open>
  Modelled from the spec: the A* planner returns the best tree, or none when the search
  fails ("the DialogueAct produces no output tree"), and its open and close lists.
\<close>

definition asearch_generate_tree ::
  "'t env \<Rightarrow> config \<Rightarrow> da \<Rightarrow> nat \<Rightarrow> bool \<Rightarrow> ('t, 't list \<times> 't list) prog" where
  "asearch_generate_tree env cfg da gen_doc return_lists =
     bnd get_rng (\<lambda>r.
     bnd (ext env (GenerateTree ASearchPlanner da return_lists)) (\<lambda>_.
     case asearch_tree env cfg r da of (best, open_list, close_list) \<Rightarrow>
       bnd (case best of
              None \<Rightarrow> ret ()
            | Some t \<Rightarrow> update_document gen_doc (doc_add_tree (target_zone env cfg) t)) (\<lambda>_.
       ret (open_list, close_list))))"

text \<open>
  Modelled from the spec: \<open>chunk_list\<close> of \<open>tgen.futil\<close> is not among the sources. It
  cuts the list of generated trees into the consecutive groups of \<open>n\<close> trees, one group
  per dialogue act ("N-per-act for sampling"); the last group holds what is left.
\<close>

function chunks :: "nat \<Rightarrow> 'a list \<Rightarrow> 'a list list" where
  "chunks n xs = (if n = 0 \<or> xs = [] then [] else take n xs # chunks n (drop n xs))"
  by pat_completeness auto
termination
  by (relation "measure (\<lambda>(n, xs). length xs)") auto

declare chunks.simps [simp del]

definition chunk_list :: "'a list \<Rightarrow> int \<Rightarrow> 'a list list" where
  "chunk_list l n = chunks (nat n) l"

text \<open>
  Modelled from the spec: \<open>add_bundle_text\<close> of \<open>tgen.futil\<close> is not among the sources.
  It attaches a text to a bundle under a language and selector.
\<close>

definition add_bundle_text :: "'t doc_bundle \<Rightarrow> string \<Rightarrow> string \<Rightarrow> message \<Rightarrow> 't doc_bundle" where
  "add_bundle_text b language selector text = b\<lparr>texts := texts b @ [((language, selector), text)]\<rparr>"

subsection \<open>Python builtins\<close>

text \<open>\<open>max(xs, key=...)\<close>: the first of the items with the greatest key; raises on \<open>[]\<close>.\<close>

fun max_from :: "('a \<Rightarrow> 'k::linorder) \<Rightarrow> 'a \<Rightarrow> 'a list \<Rightarrow> 'a" where
  "max_from key best [] = best"
| "max_from key best (x # xs) = max_from key (if key best < key x then x else best) xs"

definition py_max :: "('a \<Rightarrow> 'k::linorder) \<Rightarrow> 'a list \<Rightarrow> py_error + 'a" where
  "py_max key xs =
     (case xs of
        [] \<Rightarrow> Inl (ValueError ''max() arg is an empty sequence'')
      | x # rest \<Rightarrow> Inr (max_from key x rest))"

text \<open>\<open>xrange(n)\<close> takes a C long; it is empty for \<open>n \<le> 0\<close>.\<close>

definition xrange :: "'t env \<Rightarrow> int \<Rightarrow> py_error + nat" where
  "xrange env n =
     (if n > sys_maxint env \<or> n < - sys_maxint env - 1
      then Inl OverflowError
      else Inr (nat n))"

text \<open>The truth value of an optional string: \<open>None\<close> and \<open>''\<close> are false.\<close>

fun truthy :: "string option \<Rightarrow> bool" where
  "truthy None = False"
| "truthy (Some s) = (s \<noteq> [])"

text \<open>A tuple of three floats as the arguments of a format string.\<close>

definition stats_args :: "rat \<times> rat \<times> rat \<Rightarrow> fmt_arg list" where
  "stats_args t = (case t of (a, b, c) \<Rightarrow> [F a, F b, F c])"

fun zip3 :: "'a list \<Rightarrow> 'b list \<Rightarrow> 'c list \<Rightarrow> ('a \<times> 'b \<times> 'c) list" where
  "zip3 (x # xs) (y # ys) (z # zs) = (x, y, z) # zip3 xs ys zs"
| "zip3 _ _ _ = []"

subsection \<open>The module docstring\<close>

definition unlines :: "string list \<Rightarrow> string" where
  "unlines ls = concat (map (\<lambda>l. l @ [CHR 0x0A]) ls)"

definition doc :: string where
  "doc = CHR 0x0A # unlines
    [''Generating T-trees from dialogue acts.'',
     [],
     ''Usage: ./tgen.py <action> <argument1 ...>'',
     [],
     ''Actions:'',
     [],
     ''candgen_train -- train candidate generator (probability distributions)'',
     ''    - arguments: [-p prune_threshold] train-das train-ttrees output-model'',
     [],
     ''percrank_train -- train perceptron global ranker'',
     ''    - arguments: [-d debug-output] [-c candgen-model] [-s data-portion] [-j parallel-jobs] [-w parallel-work-dir] '' @ [CHR 0x5C],
     ''                 ranker-config train-das train-ttrees output-model'',
     [],
     ''sample_gen -- generate using the given candidate generator'',
     ''    - arguments: [-n trees-per-da] [-o oracle-eval-ttrees] [-w output-ttrees] candgen-model test-das'',
     [],
     ''asearch_gen -- generate using the A*search sentence planner'',
     ''    - arguments: [-e eval-ttrees-file] [-s eval-ttrees-selector] [-d debug-output] [-w output-ttrees] [-c config] candgen-model percrank-model test-das'']"

subsection \<open>\<open>candgen_train\<close>\<close>

fun candgen_train_opts :: "'t env \<Rightarrow> optlist \<Rightarrow> int \<Rightarrow> py_error + int" where
  "candgen_train_opts env [] prune_threshold = Inr prune_threshold"
| "candgen_train_opts env ((opt, arg) # opts) prune_threshold =
     (if opt = ''-p'' then
        (case py_int env arg of
           None \<Rightarrow> Inl (ValueError arg)
         | Some v \<Rightarrow> candgen_train_opts env opts v)
      else candgen_train_opts env opts prune_threshold)"

definition candgen_train :: "'t env \<Rightarrow> string list \<Rightarrow> ('t, unit) prog" where
  "candgen_train env args =
     bnd (lift (getopt args ''p:'')) (\<lambda>(opts, files).
     bnd (lift (candgen_train_opts env opts 1)) (\<lambda>prune_threshold.
     if length files \<noteq> 3 then sys_exit doc
     else
       let fname_da_train = files ! 0; fname_ttrees_train = files ! 1;
           fname_cand_model = files ! 2;
           cfg = [(''prune_threshold'', prune_threshold)]
       in
       bnd (log_info ''Training candidate generator...'' []) (\<lambda>_.
       bnd (ext env (CandgenNew cfg)) (\<lambda>_.
       bnd (ext env (CandgenTrain fname_da_train fname_ttrees_train)) (\<lambda>_.
       ext env (CandgenSave
         (RandomCandidateGenerator cfg (Trained fname_da_train fname_ttrees_train))
         fname_cand_model))))))"

subsection \<open>\<open>percrank_train\<close>\<close>

record percrank_opts =
  candgen_model :: "string option"
  train_size :: rat
  parallel :: bool
  jobs_number :: int
  work_dir :: "string option"

fun percrank_train_opts :: "'t env \<Rightarrow> optlist \<Rightarrow> percrank_opts \<Rightarrow> ('t, percrank_opts) prog" where
  "percrank_train_opts env [] st = ret st"
| "percrank_train_opts env ((opt, arg) # opts) st =
     (if opt = ''-d'' then
        bnd (ext env (SetDebugStream arg)) (\<lambda>_. percrank_train_opts env opts st)
      else if opt = ''-s'' then
        (case py_float env arg of
           None \<Rightarrow> raise (ValueError arg)
         | Some v \<Rightarrow> percrank_train_opts env opts (st\<lparr>train_size := v\<rparr>))
      else if opt = ''-c'' then percrank_train_opts env opts (st\<lparr>candgen_model := Some arg\<rparr>)
      else if opt = ''-j'' then
        (case py_int env arg of
           None \<Rightarrow> raise (ValueError arg)
         | Some v \<Rightarrow> percrank_train_opts env opts (st\<lparr>parallel := True, jobs_number := v\<rparr>))
      else if opt = ''-w'' then percrank_train_opts env opts (st\<lparr>work_dir := Some arg\<rparr>)
      else percrank_train_opts env opts st)"

text \<open>\<open>cfg[k] = v\<close> on a configuration.\<close>

definition dict_set :: "string \<Rightarrow> cfg_val \<Rightarrow> config \<Rightarrow> config" where
  "dict_set k v cfg =
     cfg\<lparr>cfg_set := (if k \<in> fst ` set (cfg_set cfg)
                      then map (\<lambda>(k', v'). if k' = k then (k', v) else (k', v')) (cfg_set cfg)
                      else cfg_set cfg @ [(k, v)])\<rparr>"

definition percrank_train :: "'t env \<Rightarrow> string list \<Rightarrow> ('t, unit) prog" where
  "percrank_train env args =
     bnd (lift (getopt args ''c:d:s:j:w:'')) (\<lambda>(opts, files).
     bnd (percrank_train_opts env opts
            \<lparr>candgen_model = None, train_size = 1, parallel = False, jobs_number = 0,
             work_dir = None\<rparr>) (\<lambda>st.
     if length files \<noteq> 4 then sys_exit doc
     else
       let fname_rank_config = files ! 0; fname_train_das = files ! 1;
           fname_train_ttrees = files ! 2; fname_rank_model = files ! 3
       in
       bnd (log_info ''Training perceptron ranker...'' []) (\<lambda>_.
       bnd (ext env (ConfigLoad fname_rank_config)) (\<lambda>_.
       let rank_config = \<lparr>cfg_source = Some fname_rank_config, cfg_set = []\<rparr>;
           rank_config =
             (if truthy (candgen_model st)
              then dict_set ''candgen_model'' (Str (the (candgen_model st))) rank_config
              else rank_config);
           ranker =
             (if \<not> parallel st then PerceptronRanker rank_config
              else ParallelPerceptronRanker
                     (dict_set ''jobs_number'' (Num (jobs_number st)) rank_config)
                     (case work_dir st of
                        None \<Rightarrow> fst (os_path_split env fname_rank_config)
                      | Some d \<Rightarrow> d))
       in
       bnd (ext env (RankerNew ranker)) (\<lambda>_.
       bnd (ext env (RankerTrain ranker fname_train_das fname_train_ttrees (train_size st))) (\<lambda>_.
       ext env (RankerSave ranker fname_rank_model)))))))"

subsection \<open>\<open>sample_gen\<close>\<close>

record out_opts =
  fname_ttrees_out :: "string option"

record sample_opts = out_opts +
  num_to_generate :: int
  oracle_eval_file :: "string option"

fun sample_gen_opts :: "'t env \<Rightarrow> optlist \<Rightarrow> sample_opts \<Rightarrow> py_error + sample_opts" where
  "sample_gen_opts env [] st = Inr st"
| "sample_gen_opts env ((opt, arg) # opts) st =
     (if opt = ''-n'' then
        (case py_int env arg of
           None \<Rightarrow> Inl (ValueError arg)
         | Some v \<Rightarrow> sample_gen_opts env opts (st\<lparr>num_to_generate := v\<rparr>))
      else if opt = ''-o'' then sample_gen_opts env opts (st\<lparr>oracle_eval_file := Some arg\<rparr>)
      else if opt = ''-w'' then sample_gen_opts env opts (st\<lparr>fname_ttrees_out := Some arg\<rparr>)
      else sample_gen_opts env opts st)"

text \<open>\<open>for _ in xrange(num_to_generate): tgen.generate_tree(da, gen_doc)\<close>\<close>

fun generate_n :: "'t env \<Rightarrow> config \<Rightarrow> nat \<Rightarrow> da \<Rightarrow> nat \<Rightarrow> ('t, unit) prog" where
  "generate_n env cfg gen_doc da 0 = ret ()"
| "generate_n env cfg gen_doc da (Suc k) =
     bnd (sampling_generate_tree env cfg da gen_doc) (\<lambda>_. generate_n env cfg gen_doc da k)"

definition sample_gen_generate :: "'t env \<Rightarrow> config \<Rightarrow> nat \<Rightarrow> da list \<Rightarrow> int \<Rightarrow> ('t, unit) prog" where
  "sample_gen_generate env cfg gen_doc das n =
     for_each das (\<lambda>da. bnd (lift (xrange env n)) (\<lambda>k. generate_n env cfg gen_doc da k))"

text \<open>
  The loop of the oracle evaluation: per gold tree and group of generated trees, the
  counts of the tree with the greatest F1 are added to the three totals.
\<close>

definition best_counts :: "'t env \<Rightarrow> 't \<Rightarrow> 't list \<Rightarrow> py_error + (rat \<times> int \<times> int \<times> int)" where
  "best_counts env gold_tree gen_trees =
     py_max fst
       (map (\<lambda>(c, p, g). (f1_from_counts env c p g, c, p, g))
            (map (\<lambda>gen_tree. corr_pred_gold env gold_tree gen_tree) gen_trees))"

fun oracle_counts ::
  "'t env \<Rightarrow> ('t \<times> 't list) list \<Rightarrow> int \<times> int \<times> int \<Rightarrow> py_error + (int \<times> int \<times> int)" where
  "oracle_counts env [] acc = Inr acc"
| "oracle_counts env ((gold_tree, gen_trees) # rest) (correct, predicted, gold) =
     (case best_counts env gold_tree gen_trees of
        Inl e \<Rightarrow> Inl e
      | Inr (_, tc, tp, tg) \<Rightarrow>
          oracle_counts env rest (correct + tc, predicted + tp, gold + tg))"

definition sample_gen_evaluate :: "'t env \<Rightarrow> config \<Rightarrow> nat \<Rightarrow> int \<Rightarrow> fname \<Rightarrow> ('t, unit) prog" where
  "sample_gen_evaluate env cfg gen_doc n oracle_file =
     bnd (log_info ''Evaluating oracle F1...'' []) (\<lambda>_.
     bnd (log_info (''Loading gold data from '' @ oracle_file) []) (\<lambda>_.
     bnd (ext env (ReadTTrees oracle_file)) (\<lambda>_.
     bnd (lift (ttrees_from_doc (doc_of_file env oracle_file)
                  (planner_language env cfg) (planner_selector env cfg))) (\<lambda>gold_trees.
     bnd (get_document gen_doc) (\<lambda>d.
     bnd (lift (ttrees_from_doc d (planner_language env cfg) (planner_selector env cfg))) (\<lambda>gen_trees.
     bnd (log_info ''Gold data loaded.'' []) (\<lambda>_.
     bnd (lift (oracle_counts env (zip gold_trees (chunk_list gen_trees n)) (0, 0, 0)))
       (\<lambda>(correct, predicted, gold).
     log_info ''Oracle Precision: %.6f, Recall: %.6f, F1: %.6f''
       (stats_args (p_r_f1_from_counts env correct predicted gold))))))))))"

definition write_output :: "'t env \<Rightarrow> string option \<Rightarrow> nat \<Rightarrow> ('t, unit) prog" where
  "write_output env out gen_doc =
     (case out of
        None \<Rightarrow> ret ()
      | Some fname \<Rightarrow>
          bnd (log_info ''Writing output...'' []) (\<lambda>_.
          bnd (get_document gen_doc) (\<lambda>d.
          ext env (WriteYAML fname d))))"

definition sample_gen :: "'t env \<Rightarrow> string list \<Rightarrow> ('t, unit) prog" where
  "sample_gen env args =
     bnd (lift (getopt args ''r:n:o:w:'')) (\<lambda>(opts, files).
     bnd (lift (sample_gen_opts env opts
            \<lparr>fname_ttrees_out = None, num_to_generate = 1, oracle_eval_file = None\<rparr>)) (\<lambda>st.
     if length files \<noteq> 2 then sys_exit doc
     else
       let fname_cand_model = files ! 0; fname_da_test = files ! 1 in
       bnd (log_info ''Initializing...'' []) (\<lambda>_.
       bnd (ext env (CandgenNew [])) (\<lambda>_.
       bnd (ext env (CandgenLoad fname_cand_model)) (\<lambda>_.
       let candgen = RandomCandidateGenerator [] (Loaded fname_cand_model);
           ranker = candgen;
           cfg = \<lparr>cfg_source = None,
                  cfg_set = [(''candgen'', Obj candgen), (''ranker'', Obj ranker)]\<rparr>
       in
       bnd (ext env (PlannerNew SamplingPlanner cfg)) (\<lambda>_.
       bnd (log_info ''Generating...'' []) (\<lambda>_.
       bnd (new_document []) (\<lambda>gen_doc.
       bnd (ext env (ReadDas fname_da_test)) (\<lambda>_.
       bnd (sample_gen_generate env cfg gen_doc (das_of_file env fname_da_test)
              (num_to_generate st)) (\<lambda>_.
       bnd (case oracle_eval_file st of
              None \<Rightarrow> ret ()
            | Some oracle_file \<Rightarrow>
                sample_gen_evaluate env cfg gen_doc (num_to_generate st) oracle_file) (\<lambda>_.
       write_output env (fname_ttrees_out st) gen_doc)))))))))))"

subsection \<open>\<open>asearch_gen\<close>\<close>

record asearch_opts = out_opts +
  eval_file :: "string option"
  cfg_file :: "string option"
  eval_selector :: string

fun asearch_gen_opts :: "'t env \<Rightarrow> optlist \<Rightarrow> asearch_opts \<Rightarrow> ('t, asearch_opts) prog" where
  "asearch_gen_opts env [] st = ret st"
| "asearch_gen_opts env ((opt, arg) # opts) st =
     (if opt = ''-e'' then asearch_gen_opts env opts (st\<lparr>eval_file := Some arg\<rparr>)
      else if opt = ''-s'' then asearch_gen_opts env opts (st\<lparr>eval_selector := arg\<rparr>)
      else if opt = ''-d'' then
        bnd (ext env (SetDebugStream arg)) (\<lambda>_. asearch_gen_opts env opts st)
      else if opt = ''-w'' then asearch_gen_opts env opts (st\<lparr>fname_ttrees_out := Some arg\<rparr>)
      else if opt = ''-c'' then asearch_gen_opts env opts (st\<lparr>cfg_file := Some arg\<rparr>)
      else asearch_gen_opts env opts st)"

text \<open>
  The loop over \<open>enumerate(zip(das, trees_from_doc(eval_doc, ...)))\<close>; the lists
  analyzer is the list of what has been appended to it.
\<close>

fun analyze_lists ::
  "'t env \<Rightarrow> config \<Rightarrow> nat \<Rightarrow> (nat \<times> da \<times> 't) list \<Rightarrow> ('t \<times> 't list \<times> 't list) list
     \<Rightarrow> ('t, ('t \<times> 't list \<times> 't list) list) prog" where
  "analyze_lists env cfg gen_doc [] lists_analyzer = ret lists_analyzer"
| "analyze_lists env cfg gen_doc ((num, da, gold_tree) # rest) lists_analyzer =
     bnd (log_debug ([CHR 0x0A, CHR 0x0A] @ ''TREE No. %03d'') [D (int num)]) (\<lambda>_.
     bnd (asearch_generate_tree env cfg da gen_doc True) (\<lambda>(open_list, close_list).
     bnd (ext env (AnalyzerAppend gold_tree open_list close_list)) (\<lambda>_.
     analyze_lists env cfg gen_doc rest
       (lists_analyzer @ [(gold_tree, open_list, close_list)]))))"

text \<open>
  The loop over \<open>zip(eval_doc.bundles, eval_ttrees, gen_ttrees)\<close>; a bundle is named by
  its position in \<open>eval_doc\<close>, and the evaluator is the list of what has been appended.
\<close>

fun score_bundles ::
  "'t env \<Rightarrow> config \<Rightarrow> nat \<Rightarrow> (nat \<times> 't \<times> 't) list \<Rightarrow> ('t \<times> 't) list
     \<Rightarrow> ('t, ('t \<times> 't) list) prog" where
  "score_bundles env cfg eval_doc [] evaler = ret evaler"
| "score_bundles env cfg eval_doc ((eval_bundle, eval_ttree, gen_ttree) # rest) evaler =
     bnd (update_document eval_doc (\<lambda>d. d[eval_bundle :=
            add_bundle_text (d ! eval_bundle) (planner_language env cfg)
              (planner_selector env cfg @ ''Xscore'')
              (''P: %.4f R: %.4f F1: %.4f'',
               (case corr_pred_gold env eval_ttree gen_ttree of (c, p, g) \<Rightarrow>
                  stats_args (p_r_f1_from_counts env c p g)))])) (\<lambda>_.
     bnd (ext env (EvaluatorAppend eval_ttree gen_ttree)) (\<lambda>_.
     score_bundles env cfg eval_doc rest (evaler @ [(eval_ttree, gen_ttree)])))"

definition asearch_gen_evaluate ::
  "'t env \<Rightarrow> config \<Rightarrow> da list \<Rightarrow> nat \<Rightarrow> nat \<Rightarrow> string \<Rightarrow> ('t, unit) prog" where
  "asearch_gen_evaluate env cfg das eval_doc gen_doc eval_sel =
     bnd (get_document eval_doc) (\<lambda>d.
     bnd (lift (trees_from_doc env d (planner_language env cfg) eval_sel)) (\<lambda>gold_trees.
     bnd (analyze_lists env cfg gen_doc (List.enumerate 0 (zip das gold_trees)) [])
       (\<lambda>lists_analyzer.
     bnd (log_info ''Gold tree BEST: %.4f, on CLOSE: %.4f, on ANY list: %4f''
            (stats_args (lists_stats env lists_analyzer))) (\<lambda>_.
     bnd (get_document eval_doc) (\<lambda>d.
     bnd (lift (ttrees_from_doc d (planner_language env cfg) eval_sel)) (\<lambda>eval_ttrees.
     bnd (get_document gen_doc) (\<lambda>g.
     bnd (lift (ttrees_from_doc g (planner_language env cfg) (planner_selector env cfg)))
       (\<lambda>gen_ttrees.
     bnd (log_info ''Evaluating...'' []) (\<lambda>_.
     bnd (score_bundles env cfg eval_doc (zip3 [0..<length d] eval_ttrees gen_ttrees) [])
       (\<lambda>evaler.
     bnd (log_info ''NODE precision: %.4f, Recall: %.4f, F1: %.4f''
            (stats_args (evaluator_p_r_f1 env NODE evaler))) (\<lambda>_.
     log_info ''DEP  precision: %.4f, Recall: %.4f, F1: %.4f''
       (stats_args (evaluator_p_r_f1 env DEP evaler)))))))))))))"

definition asearch_gen :: "'t env \<Rightarrow> string list \<Rightarrow> ('t, unit) prog" where
  "asearch_gen env args =
     bnd (lift (getopt args ''e:d:w:c:'')) (\<lambda>(opts, files).
     bnd (asearch_gen_opts env opts
            \<lparr>fname_ttrees_out = None, eval_file = None, cfg_file = None,
             eval_selector = []\<rparr>) (\<lambda>st.
     if length files \<noteq> 3 then sys_exit (''Invalid arguments.'' @ [CHR 0x0A] @ doc)
     else
       let fname_cand_model = files ! 0; fname_rank_model = files ! 1;
           fname_da_test = files ! 2
       in
       bnd (log_info ''Initializing...'' []) (\<lambda>_.
       bnd (ext env (CandgenNew [])) (\<lambda>_.
       bnd (ext env (CandgenLoad fname_cand_model)) (\<lambda>_.
       bnd (ext env (RankerLoad fname_rank_model)) (\<lambda>_.
       bnd (if truthy (cfg_file st) then ext env (ConfigLoad (the (cfg_file st))) else ret ())
         (\<lambda>_.
       let candgen = RandomCandidateGenerator [] (Loaded fname_cand_model);
           ranker = PerceptronRanker_from_file fname_rank_model;
           cfg = \<lparr>cfg_source = (if truthy (cfg_file st) then cfg_file st else None),
                  cfg_set = []\<rparr>;
           cfg = dict_set ''ranker'' (Obj ranker) (dict_set ''candgen'' (Obj candgen) cfg)
       in
       bnd (ext env (PlannerNew ASearchPlanner cfg)) (\<lambda>_.
       bnd (log_info ''Generating...'' []) (\<lambda>_.
       bnd (ext env (ReadDas fname_da_test)) (\<lambda>_.
       let das = das_of_file env fname_da_test in
       (case eval_file st of
          None \<Rightarrow>
            bnd (new_document []) (\<lambda>gen_doc.
            bnd (for_each das (\<lambda>da.
                   bnd (asearch_generate_tree env cfg da gen_doc False) (\<lambda>_. ret ()))) (\<lambda>_.
            write_output env (fname_ttrees_out st) gen_doc))
        | Some efile \<Rightarrow>
            bnd (ext env (ReadTTrees efile)) (\<lambda>_.
            bnd (new_document (doc_of_file env efile)) (\<lambda>eval_doc.
            bnd (if eval_selector st = planner_selector env cfg then new_document []
                 else ret eval_doc) (\<lambda>gen_doc.
            bnd (asearch_gen_evaluate env cfg das eval_doc gen_doc (eval_selector st)) (\<lambda>_.
            write_output env (fname_ttrees_out st) gen_doc)))))))))))))))"

subsection \<open>The entry point\<close>

definition main :: "'t env \<Rightarrow> string list \<Rightarrow> ('t, unit) prog" where
  "main env argv =
     bnd (random_seed env 1206) (\<lambda>_.
     if length argv < 3 then sys_exit doc
     else
       let action = argv ! 1; args = drop 2 argv in
       bnd (log_info ''Running on %s version %s''
              [S (python_implementation env), S (python_version env)]) (\<lambda>_.
       bnd (if action = ''candgen_train'' then candgen_train env args
            else if action = ''percrank_train'' then percrank_train env args
            else if action = ''random_gen'' then sample_gen env args
            else if action = ''asearch_gen'' then asearch_gen env args
            else sys_exit ([CHR 0x0A] @ ''ERROR: Unknown Tgen action: '' @ action
                           @ [CHR 0x0A, CHR 0x0A] @ ''---'' @ doc)) (\<lambda>_.
       log_info ''Done.'' [])))"

text \<open>A run starts with an empty trace and an empty store.\<close>

definition start :: "rng_state \<Rightarrow> 't world" where
  "start r = \<lparr>rng = r, trace = [], heap = []\<rparr>"

subsection \<open>Option lists and a concrete environment\<close>

text \<open>
  The command-line words of a list of options, each written as the option letter
  followed by its argument in a word of its own.
\<close>

definition option_args :: "(char \<times> string) list \<Rightarrow> string list" where
  "option_args os = concat (map (\<lambda>(c, a). [[CHR ''-'', c], a]) os)"

text \<open>The values \<open>asearch_gen\<close> gives its option variables before the option loop.\<close>

definition asearch_start :: asearch_opts where
  "asearch_start = \<lparr>fname_ttrees_out = None, eval_file = None, cfg_file = None, eval_selector = []\<rparr>"

text \<open>The values the other actions give their option variables before the option loop.\<close>

definition percrank_start :: percrank_opts where
  "percrank_start = \<lparr>candgen_model = None, train_size = 1, parallel = False, jobs_number = 0,
                      work_dir = None\<rparr>"

definition sample_start :: sample_opts where
  "sample_start = \<lparr>fname_ttrees_out = None, num_to_generate = 1, oracle_eval_file = None\<rparr>"

text \<open>The events that open the debug stream named by \<open>-d\<close>.\<close>

definition is_debug_stream :: "'t event \<Rightarrow> bool" where
  "is_debug_stream e = (case e of SetDebugStream f \<Rightarrow> True | _ \<Rightarrow> False)"

text \<open>
  An environment to run the driver on: \<open>int\<close> on an optionally signed decimal
  numeral, two dialogue acts, a gold document of two trees, trees that are numbers, and
  no call that raises.
\<close>

definition dec_int :: "string \<Rightarrow> int option" where
  "dec_int s =
     (let (sign, ds) = (case s of
                          c # cs \<Rightarrow> if c = CHR ''-'' then (- 1, cs) else if c = CHR ''+'' then (1, cs) else (1, s)
                        | [] \<Rightarrow> (1, s))
      in if ds \<noteq> [] \<and> list_all (\<lambda>c. c \<in> set ''0123456789'') ds
         then Some (sign * foldl (\<lambda>n c. 10 * n + (of_char c - 48)) 0 ds)
         else None)"

definition demo_env :: "nat env" where
  "demo_env =
     \<lparr>python_implementation = ''CPython'', python_version = ''2.7.6'',
      sys_maxint = 9223372036854775807,
      py_int = dec_int,
      py_float = (\<lambda>s. map_option of_int (dec_int s)),
      os_path_split = (\<lambda>p. ([], p)),
      seed_state = nat,
      raises = (\<lambda>tr r. None),
      advance = (\<lambda>e r. r + 2),
      das_of_file = (\<lambda>f. [[(''inform'', ''food'', ''Italian'')], [(''request'', ''area'', [])]]),
      doc_of_file = (\<lambda>f. [\<lparr>zones = [((''en'', []), 10)], texts = []\<rparr>,
                            \<lparr>zones = [((''en'', []), 9)], texts = []\<rparr>]),
      planner_language = (\<lambda>cfg. ''en''),
      planner_selector = (\<lambda>cfg. []),
      sample_tree = (\<lambda>cfg r da. r),
      asearch_tree = (\<lambda>cfg r da. (Some r, [r + 1], [r, 5])),
      tree_data = id,
      corr_pred_gold = (\<lambda>g t. (if g = t then 3 else 1, 3, 3)),
      f1_from_counts = (\<lambda>c p g. if p + g = 0 then 0 else of_int (2 * c) / of_int (p + g)),
      p_r_f1_from_counts = (\<lambda>c p g.
         (if p = 0 then 0 else of_int c / of_int p,
          if g = 0 then 0 else of_int c / of_int g,
          if p + g = 0 then 0 else of_int (2 * c) / of_int (p + g))),
      lists_stats = (\<lambda>l. (0, 0, 0)),
      evaluator_p_r_f1 = (\<lambda>ty l. (0, 0, 0))\<rparr>"

subsection \<open>What the sampling run is compared with\<close>

text \<open>The configuration \<open>sample_gen\<close> builds its planner from, given the model file.\<close>

definition sample_cfg :: "fname \<Rightarrow> config" where
  "sample_cfg fname_cand_model =
     \<lparr>cfg_source = None,
      cfg_set = [(''candgen'', Obj (RandomCandidateGenerator [] (Loaded fname_cand_model))),
                 (''ranker'', Obj (RandomCandidateGenerator [] (Loaded fname_cand_model)))]\<rparr>"

text \<open>
  The trees drawn for a sequence of dialogue acts, one call of \<open>generate_tree\<close> each,
  from a state of the random generator, and the state the generator is left in.
\<close>

fun samples :: "'t env \<Rightarrow> config \<Rightarrow> rng_state \<Rightarrow> da list \<Rightarrow> 't list" where
  "samples env cfg r [] = []"
| "samples env cfg r (da # das) =
     sample_tree env cfg r da
       # samples env cfg (advance env (GenerateTree SamplingPlanner da False) r) das"

fun rng_after :: "'t env \<Rightarrow> rng_state \<Rightarrow> da list \<Rightarrow> rng_state" where
  "rng_after env r [] = r"
| "rng_after env r (da # das) =
     rng_after env (advance env (GenerateTree SamplingPlanner da False) r) das"

text \<open>The groups of \<open>n\<close> trees, one group per dialogue act, in the order of the acts.\<close>

fun samples_per_da :: "'t env \<Rightarrow> config \<Rightarrow> nat \<Rightarrow> rng_state \<Rightarrow> da list \<Rightarrow> 't list list" where
  "samples_per_da env cfg n r [] = []"
| "samples_per_da env cfg n r (da # das) =
     samples env cfg r (replicate n da)
       # samples_per_da env cfg n (rng_after env r (replicate n da)) das"

text \<open>The event of one call of the sampling planner.\<close>

definition gen_event :: "da \<Rightarrow> 't event" where
  "gen_event da = GenerateTree SamplingPlanner da False"

text \<open>The bundle of a document that holds one tree and no text.\<close>

definition tree_bundle :: "zone_key \<Rightarrow> 't \<Rightarrow> 't doc_bundle" where
  "tree_bundle key t = \<lparr>zones = [(key, t)], texts = []\<rparr>"

text \<open>The state of the random generator when \<open>sample_gen\<close> starts to generate.\<close>

definition sample_gen_rng :: "'t env \<Rightarrow> fname \<Rightarrow> fname \<Rightarrow> rng_state \<Rightarrow> rng_state" where
  "sample_gen_rng env fname_cand_model fname_da_test r =
     advance env (ReadDas fname_da_test)
       (advance env (PlannerNew SamplingPlanner (sample_cfg fname_cand_model))
          (advance env (CandgenLoad fname_cand_model)
             (advance env (CandgenNew []) r)))"

text \<open>
  Oracle selection in the words of the specification: a triple of counts is a best one
  for a gold tree and a group of generated trees when it is the counts of a tree of the
  group and no tree of the group has a greater F1 against the gold tree.
\<close>

definition f1_of :: "'t env \<Rightarrow> int \<times> int \<times> int \<Rightarrow> rat" where
  "f1_of env t = (case t of (c, p, g) \<Rightarrow> f1_from_counts env c p g)"

definition is_best :: "'t env \<Rightarrow> 't \<times> 't list \<Rightarrow> int \<times> int \<times> int \<Rightarrow> bool" where
  "is_best env pair b =
     (case pair of (gold_tree, gen_trees) \<Rightarrow>
        b \<in> set (map (corr_pred_gold env gold_tree) gen_trees)
        \<and> list_all (\<lambda>t. f1_of env (corr_pred_gold env gold_tree t) \<le> f1_of env b) gen_trees)"

text \<open>Micro-averaging: the three counts are summed over the corpus.\<close>

definition sum_counts :: "(int \<times> int \<times> int) list \<Rightarrow> int \<times> int \<times> int" where
  "sum_counts bs = (sum_list (map fst bs), sum_list (map (fst \<circ> snd) bs), sum_list (map (snd \<circ> snd) bs))"

text \<open>The events of the oracle evaluation and of writing the output.\<close>

definition oracle_events :: "'t env \<Rightarrow> fname \<Rightarrow> int \<times> int \<times> int \<Rightarrow> 't event list" where
  "oracle_events env oracle_file counts =
     [LogInfo ''Evaluating oracle F1...'' [],
      LogInfo (''Loading gold data from '' @ oracle_file) [],
      ReadTTrees oracle_file,
      LogInfo ''Gold data loaded.'' [],
      LogInfo ''Oracle Precision: %.6f, Recall: %.6f, F1: %.6f''
        (stats_args (case counts of (c, p, g) \<Rightarrow> p_r_f1_from_counts env c p g))]"

definition write_events :: "string option \<Rightarrow> 't document \<Rightarrow> 't event list" where
  "write_events out d =
     (case out of
        None \<Rightarrow> []
      | Some fname \<Rightarrow> [LogInfo ''Writing output...'' [], WriteYAML fname d])"

text \<open>A property of all events a program adds to the trace, however it ends.\<close>

definition emits :: "('t event \<Rightarrow> bool) \<Rightarrow> ('t, 'a) prog \<Rightarrow> bool" where
  "emits P m = (\<forall>w. \<exists>tr. trace (snd (m w)) = trace w @ tr \<and> list_all P tr)"

subsection \<open>Kinds of events\<close>

text \<open>The events a run has added to the trace.\<close>

definition new_events :: "'t world \<Rightarrow> 't world \<Rightarrow> 't event list" where
  "new_events w w' = drop (length (trace w)) (trace w')"

definition is_generate :: "'t event \<Rightarrow> bool" where
  "is_generate e = (case e of GenerateTree k da rl \<Rightarrow> True | _ \<Rightarrow> False)"

definition oracle_fmt :: string where
  "oracle_fmt = ''Oracle Precision: %.6f, Recall: %.6f, F1: %.6f''"

definition is_oracle_log :: "'t event \<Rightarrow> bool" where
  "is_oracle_log e = (case e of LogInfo fmt as \<Rightarrow> fmt = oracle_fmt | _ \<Rightarrow> False)"

definition is_model_load :: "'t event \<Rightarrow> bool" where
  "is_model_load e = (case e of CandgenLoad f \<Rightarrow> True | RankerLoad f \<Rightarrow> True | _ \<Rightarrow> False)"

definition is_planner_new :: "'t event \<Rightarrow> bool" where
  "is_planner_new e = (case e of PlannerNew k c \<Rightarrow> True | _ \<Rightarrow> False)"

definition is_seed :: "'t event \<Rightarrow> bool" where
  "is_seed e = (case e of RandomSeed n \<Rightarrow> True | _ \<Rightarrow> False)"

definition candgen_only :: "config \<Rightarrow> bool" where
  "candgen_only cfg =
     (cfg_source cfg = None \<and>
      (case cfg_set cfg of
         [(k1, v1), (k2, v2)] \<Rightarrow>
           k1 = ''candgen'' \<and> k2 = ''ranker'' \<and> v1 = v2
           \<and> (case v1 of Obj (RandomCandidateGenerator c (Loaded f)) \<Rightarrow> c = [] | _ \<Rightarrow> False)
       | _ \<Rightarrow> False))"

definition sampling_event :: "'t event \<Rightarrow> bool" where
  "sampling_event e =
     (case e of
        LogInfo fmt as \<Rightarrow> True
      | CandgenNew c \<Rightarrow> c = []
      | CandgenLoad f \<Rightarrow> True
      | PlannerNew k c \<Rightarrow> k = SamplingPlanner \<and> candgen_only c
      | ReadDas f \<Rightarrow> True
      | GenerateTree k da rl \<Rightarrow> k = SamplingPlanner \<and> rl = False
      | ReadTTrees f \<Rightarrow> True
      | WriteYAML f d \<Rightarrow> True
      | _ \<Rightarrow> False)"

section \<open>Properties\<close>

subsection \<open>Running with exceptions\<close>

lemma bnd_Inr:
  "(bnd m f w = (Inr y, w')) = (\<exists>x w1. m w = (Inr x, w1) \<and> f x w1 = (Inr y, w'))"
  by (auto simp: bnd_def split: prod.splits sum.splits)

lemma bnd_lift_Inr: "bnd (lift (Inr x)) f = f x"
  by (simp add: bnd_def lift_def)

lemma bnd_lift_Inl: "bnd (lift (Inl e)) f = raise e"
  by (simp add: bnd_def lift_def raise_def)

lemma bnd_raise: "bnd (raise e) f = raise e"
  by (simp add: bnd_def raise_def)

lemma bnd_ret: "bnd (ret x) f = f x"
  by (simp add: bnd_def ret_def)

lemma bnd_emit: "bnd (emit e) f w = f () (w\<lparr>trace := trace w @ [e]\<rparr>)"
  by (simp add: bnd_def emit_def)

subsection \<open>Facts about \<open>getopt\<close>\<close>

lemma do_shorts_acc:
  "do_shorts (os @ os') str so args =
     map_sum id (\<lambda>(o', a). (os @ o', a)) (do_shorts os' str so args)"
  by (induction str arbitrary: os')
     (auto split: sum.splits bool.splits list.splits)

lemma getopt_loop_acc:
  "getopt_loop (os @ os') args so =
     map_sum id (\<lambda>(o', a). (os @ o', a)) (getopt_loop os' args so)"
proof (induction os' args so rule: getopt_loop.induct)
  case (1 opts shortopts)
  then show ?case by simp
next
  case (2 opts a args shortopts)
  show ?case
  proof (cases "do_shorts opts (tl a) shortopts args")
    case (Inl e)
    then show ?thesis by (simp add: do_shorts_acc)
  next
    case (Inr p)
    obtain opts' args' where p: "p = (opts', args')" by (cases p)
    with Inr 2 show ?thesis by (simp add: do_shorts_acc)
  qed
qed

lemma do_shorts_mono:
  "do_shorts os str so args = Inr (os', args') \<Longrightarrow> set os \<subseteq> set os'"
  using do_shorts_acc [of os "[]" str so args]
  by (cases "do_shorts [] str so args") auto

lemma getopt_loop_mono:
  "getopt_loop os args so = Inr (os', files) \<Longrightarrow> set os \<subseteq> set os'"
  using getopt_loop_acc [of os "[]" args so]
  by (cases "getopt_loop [] args so") auto

lemma do_shorts_without_s:
  assumes "do_shorts os str ''e:s:d:w:c:'' args = Inr (os', args')"
    and "''-s'' \<notin> fst ` set os"
  shows "if ''-s'' \<in> fst ` set os'
         then do_shorts os str ''e:d:w:c:'' args = Inl (GetoptError ''option -s not recognized'' ''s'')
         else do_shorts os str ''e:d:w:c:'' args = Inr (os', args')"
proof (cases str)
  case Nil
  with assms show ?thesis by auto
next
  case (Cons c cs)
  with assms show ?thesis
    by (cases args) (auto split: if_splits)
qed

lemma getopt_loop_without_s:
  "getopt_loop os args ''e:s:d:w:c:'' = Inr (os', files) \<Longrightarrow> ''-s'' \<notin> fst ` set os \<Longrightarrow>
   (if ''-s'' \<in> fst ` set os'
    then getopt_loop os args ''e:d:w:c:'' = Inl (GetoptError ''option -s not recognized'' ''s'')
    else getopt_loop os args ''e:d:w:c:'' = Inr (os', files))"
proof (induction os args "''e:s:d:w:c:''" arbitrary: os' files rule: getopt_loop.induct)
  case (1 opts)
  then show ?case by auto
next
  case (2 opts a args)
  show ?case
  proof (cases "\<not> (a \<noteq> [] \<and> hd a = CHR ''-'' \<and> a \<noteq> ''-'') \<or> a = ''--'' \<or> take 2 a = ''--''")
    case True
    with "2.prems" show ?thesis by (auto split: if_splits)
  next
    case False
    with "2.prems" obtain os1 args1 where
      step: "do_shorts opts (tl a) ''e:s:d:w:c:'' args = Inr (os1, args1)" and
      rest: "getopt_loop os1 args1 ''e:s:d:w:c:'' = Inr (os', files)"
      by (auto split: sum.splits)
    note ds = do_shorts_without_s [OF step "2.prems"(2)]
    have m2: "set os1 \<subseteq> set os'" using rest by (rule getopt_loop_mono)
    show ?thesis
    proof (cases "''-s'' \<in> fst ` set os1")
      case True
      with ds have "do_shorts opts (tl a) ''e:d:w:c:'' args
          = Inl (GetoptError ''option -s not recognized'' ''s'')" by simp
      moreover from True m2 have "''-s'' \<in> fst ` set os'" by auto
      ultimately show ?thesis using False by simp
    next
      case F2: False
      with ds have same: "do_shorts opts (tl a) ''e:d:w:c:'' args = Inr (os1, args1)" by simp
      have ih: "if ''-s'' \<in> fst ` set os'
         then getopt_loop os1 args1 ''e:d:w:c:'' = Inl (GetoptError ''option -s not recognized'' ''s'')
         else getopt_loop os1 args1 ''e:d:w:c:'' = Inr (os', files)"
        using "2.hyps" [OF _ _ _ step refl rest F2] False by blast
      from ih same False show ?thesis by simp
    qed
  qed
qed

lemma do_shorts_names:
  "do_shorts os str ''e:d:w:c:'' args = Inr (os', args') \<Longrightarrow>
   fst ` set os' \<subseteq> fst ` set os \<union> {''-e'', ''-d'', ''-w'', ''-c''}"
  by (cases str; cases args) (auto split: if_splits)

lemma getopt_loop_names:
  "getopt_loop os args ''e:d:w:c:'' = Inr (os', files) \<Longrightarrow>
   fst ` set os' \<subseteq> fst ` set os \<union> {''-e'', ''-d'', ''-w'', ''-c''}"
proof (induction os args "''e:d:w:c:''" arbitrary: os' files rule: getopt_loop.induct)
  case (1 opts)
  then show ?case by auto
next
  case (2 opts a args)
  show ?case
  proof (cases "\<not> (a \<noteq> [] \<and> hd a = CHR ''-'' \<and> a \<noteq> ''-'') \<or> a = ''--'' \<or> take 2 a = ''--''")
    case True
    with "2.prems" show ?thesis by (auto split: if_splits)
  next
    case False
    with "2.prems" obtain os1 args1 where
      step: "do_shorts opts (tl a) ''e:d:w:c:'' args = Inr (os1, args1)" and
      rest: "getopt_loop os1 args1 ''e:d:w:c:'' = Inr (os', files)"
      by (auto split: sum.splits)
    have "fst ` set os' \<subseteq> fst ` set os1 \<union> {''-e'', ''-d'', ''-w'', ''-c''}"
      using "2.hyps" [OF _ _ _ step refl rest] False by blast
    with do_shorts_names [OF step] show ?thesis by blast
  qed
qed

lemma asearch_gen_opts_selector:
  "asearch_gen_opts env opts st w = (Inr st', w') \<Longrightarrow> ''-s'' \<notin> fst ` set opts \<Longrightarrow>
   eval_selector st' = eval_selector st"
proof (induction opts arbitrary: st w)
  case Nil
  then show ?case by (simp add: ret_def)
next
  case (Cons p opts)
  obtain opt arg where p: "p = (opt, arg)" by (cases p)
  from Cons.prems p have ns: "opt \<noteq> ''-s''" "''-s'' \<notin> fst ` set opts" by auto
  from Cons.prems(1) p ns(1) show ?case
    by (auto simp: bnd_Inr split: if_splits dest!: Cons.IH [OF _ ns(2)])
qed

lemma bnd_fst_Inr:
  "fst (bnd m f w) = Inr y \<Longrightarrow> \<exists>x w1. m w = (Inr x, w1) \<and> fst (f x w1) = Inr y"
  by (auto simp: bnd_def split: prod.splits sum.splits)

lemma getopt_loop_option_args:
  "\<forall>(c, a) \<in> set pre. c \<in> set ''rnow'' \<Longrightarrow>
   getopt_loop os (option_args pre @ rest) ''r:n:o:w:'' =
   getopt_loop (os @ map (\<lambda>(c, a). ([CHR ''-'', c], a)) pre) rest ''r:n:o:w:''"
proof (induction pre arbitrary: os)
  case Nil
  then show ?case by (simp add: option_args_def)
next
  case (Cons p pre)
  obtain c a where p: "p = (c, a)" by (cases p)
  from Cons.prems p have c: "c \<in> set ''rnow''" and pre: "\<forall>(c, a) \<in> set pre. c \<in> set ''rnow''"
    by auto
  have "getopt_loop os (option_args (p # pre) @ rest) ''r:n:o:w:'' =
        getopt_loop (os @ [([CHR ''-'', c], a)]) (option_args pre @ rest) ''r:n:o:w:''"
    using c by (auto simp: option_args_def p)
  also have "\<dots> = getopt_loop ((os @ [([CHR ''-'', c], a)]) @ map (\<lambda>(c, a). ([CHR ''-'', c], a)) pre)
                      rest ''r:n:o:w:''"
    by (rule Cons.IH [OF pre])
  finally show ?case by (simp add: p)
qed

lemma sample_gen_opts_skip_r:
  "sample_gen_opts env (pre @ (''-r'', x) # opts) st = sample_gen_opts env (pre @ opts) st"
  by (induction pre arbitrary: st) (auto split: option.splits)

lemma sample_gen_from_getopt:
  assumes "getopt args1 ''r:n:o:w:'' = map_sum id (\<lambda>(o', a). (pre @ (''-r'', x) # o', a)) r"
    and "getopt args2 ''r:n:o:w:'' = map_sum id (\<lambda>(o', a). (pre @ o', a)) r"
  shows "sample_gen env args1 = sample_gen env args2"
proof (cases r)
  case (Inl e)
  with assms show ?thesis by (simp add: sample_gen_def)
next
  case (Inr p)
  obtain o' a where "p = (o', a)" by (cases p)
  with Inr assms show ?thesis
    by (simp add: sample_gen_def bnd_lift_Inr sample_gen_opts_skip_r)
qed

subsection \<open>The option loops\<close>

lemma ext_cases:
  "ext env e w = (r, w') \<Longrightarrow>
   trace w' = trace w @ [e] \<and> heap w' = heap w \<and>
   (case raises env (trace w @ [e]) (rng w) of
      Some err \<Rightarrow> r = Inl err \<and> rng w' = rng w
    | None \<Rightarrow> r = Inr () \<and> rng w' = advance env e (rng w))"
  by (auto simp: ext_def Let_def split: option.splits)

lemma percrank_train_opts_trace:
  "percrank_train_opts env opts st w = (r, w') \<Longrightarrow>
   \<exists>tr. trace w' = trace w @ tr \<and> list_all is_debug_stream tr"
proof (induction opts arbitrary: st w)
  case Nil
  then show ?case by (auto simp: ret_def)
next
  case (Cons p opts)
  obtain opt arg where p: "p = (opt, arg)" by (cases p)
  show ?case
  proof (cases "opt = ''-d''")
    case True
    show ?thesis
    proof (cases "ext env (SetDebugStream arg) w")
      case (Pair r1 w1)
      from ext_cases [OF Pair] have t1: "trace w1 = trace w @ [SetDebugStream arg]" by simp
      show ?thesis
      proof (cases r1)
        case (Inl e)
        with Cons.prems p True Pair t1 show ?thesis
          by (auto simp: bnd_def is_debug_stream_def)
      next
        case (Inr u)
        with Cons.prems p True Pair have "percrank_train_opts env opts st w1 = (r, w')"
          by (simp add: bnd_def)
        from Cons.IH [OF this] t1 show ?thesis
          by (auto simp: is_debug_stream_def)
      qed
    qed
  next
    case False
    with Cons.prems p show ?thesis
      by (auto simp: raise_def split: if_splits option.splits dest: Cons.IH)
  qed
qed

lemma asearch_gen_opts_trace:
  "asearch_gen_opts env opts st w = (r, w') \<Longrightarrow>
   \<exists>tr. trace w' = trace w @ tr \<and> list_all is_debug_stream tr"
proof (induction opts arbitrary: st w)
  case Nil
  then show ?case by (auto simp: ret_def)
next
  case (Cons p opts)
  obtain opt arg where p: "p = (opt, arg)" by (cases p)
  show ?case
  proof (cases "opt = ''-d''")
    case True
    show ?thesis
    proof (cases "ext env (SetDebugStream arg) w")
      case (Pair r1 w1)
      from ext_cases [OF Pair] have t1: "trace w1 = trace w @ [SetDebugStream arg]" by simp
      show ?thesis
      proof (cases r1)
        case (Inl e)
        with Cons.prems p True Pair t1 show ?thesis
          by (auto simp: bnd_def is_debug_stream_def)
      next
        case (Inr u)
        with Cons.prems p True Pair have "asearch_gen_opts env opts st w1 = (r, w')"
          by (simp add: bnd_def)
        from Cons.IH [OF this] t1 show ?thesis
          by (auto simp: is_debug_stream_def)
      qed
    qed
  next
    case False
    with Cons.prems p show ?thesis
      by (auto split: if_splits dest: Cons.IH)
  qed
qed

lemma candgen_train_opts_last:
  "candgen_train_opts env opts d = Inr pt \<Longrightarrow>
   pt = (case filter (\<lambda>(opt, arg). opt = ''-p'') opts of
           [] \<Rightarrow> d
         | ps \<Rightarrow> the (py_int env (snd (last ps))))"
proof (induction opts arbitrary: d)
  case Nil
  then show ?case by simp
next
  case (Cons p opts)
  obtain opt arg where p: "p = (opt, arg)" by (cases p)
  show ?case
  proof (cases "opt = ''-p''")
    case True
    with Cons.prems p obtain v where v: "py_int env arg = Some v"
      and rest: "candgen_train_opts env opts v = Inr pt"
      by (auto split: option.splits)
    from Cons.IH [OF rest] v True p show ?thesis
      by (auto split: list.splits)
  next
    case False
    with Cons.prems p have "candgen_train_opts env opts d = Inr pt" by simp
    from Cons.IH [OF this] False p show ?thesis by simp
  qed
qed

subsection \<open>Evaluating runs in the concrete environment\<close>

lemmas run_defs = bnd_def lift_def ret_def raise_def sys_exit_def emit_def log_info_def log_debug_def
  ext_def random_seed_def new_document_def get_document_def for_each_def get_rng_def update_document_def
  start_def Let_def

lemma demo_getopt_s:
  "getopt [''-s'', ''x'', ''model'', ''rank'', ''das''] ''e:s:d:w:c:''
     = Inr ([(''-s'', ''x'')], [''model'', ''rank'', ''das''])"
  by code_simp

lemma demo_getopt_plain:
  "getopt [''model'', ''rank'', ''das''] ''e:d:w:c:'' = Inr ([], [''model'', ''rank'', ''das''])"
  by code_simp

lemma demo_asearch_run:
  "fst (asearch_gen demo_env [''model'', ''rank'', ''das''] (start 0)) = Inr ()"
  by (simp add: asearch_gen_def demo_getopt_plain run_defs demo_env_def dict_set_def
      asearch_generate_tree_def write_output_def target_zone_def)

lemma demo_getopt_wrong_counts:
  "getopt [''a''] ''p:'' = Inr ([], [''a''])"
  "getopt [''-d'', ''dbg'', ''a''] ''c:d:s:j:w:'' = Inr ([(''-d'', ''dbg'')], [''a''])"
  "getopt [''a''] ''r:n:o:w:'' = Inr ([], [''a''])"
  "getopt [''a'', ''b''] ''e:d:w:c:'' = Inr ([], [''a'', ''b''])"
  "getopt [''-p'', ''x'', ''a''] ''p:'' = Inr ([(''-p'', ''x'')], [''a''])"
  "getopt [''-p'', ''3'', ''a'', ''b'', ''c''] ''p:'' = Inr ([(''-p'', ''3'')], [''a'', ''b'', ''c''])"
  by code_simp+

lemma demo_dec_int: "dec_int ''x'' = None" "dec_int ''3'' = Some 3" "dec_int ''2'' = Some 2"
  by code_simp+

subsection \<open>Runs of \<open>sample_gen\<close>\<close>

lemma samples_append:
  "samples env cfg r (xs @ ys) = samples env cfg r xs @ samples env cfg (rng_after env r xs) ys"
  by (induction xs arbitrary: r) auto

lemma rng_after_append:
  "rng_after env r (xs @ ys) = rng_after env (rng_after env r xs) ys"
  by (induction xs arbitrary: r) auto

lemma length_samples: "length (samples env cfg r das) = length das"
  by (induction das arbitrary: r) auto

lemma doc_add_tree_full:
  "\<forall>b\<in>set d. map_of (zones b) key \<noteq> None \<Longrightarrow> doc_add_tree key t d = d @ [tree_bundle key t]"
  by (induction d) (auto simp: tree_bundle_def)

lemma sampling_generate_tree_Inr:
  assumes "sampling_generate_tree env cfg da gd w = (Inr u, w')"
  shows "rng w' = advance env (gen_event da) (rng w)
       \<and> trace w' = trace w @ [gen_event da]
       \<and> heap w' = (heap w)[gd := doc_add_tree (target_zone env cfg)
                                     (sample_tree env cfg (rng w) da) (heap w ! gd)]"
  using assms
  by (auto simp: sampling_generate_tree_def gen_event_def bnd_def get_rng_def ext_def Let_def
      update_document_def split: option.splits)

lemma generate_n_Inr:
  assumes "generate_n env cfg gd da k w = (Inr u, w')"
    and "gd < length (heap w)"
    and "\<forall>b\<in>set (heap w ! gd). map_of (zones b) (target_zone env cfg) \<noteq> None"
  shows "rng w' = rng_after env (rng w) (replicate k da)
       \<and> trace w' = trace w @ map gen_event (replicate k da)
       \<and> heap w' = (heap w)[gd := heap w ! gd
            @ map (tree_bundle (target_zone env cfg)) (samples env cfg (rng w) (replicate k da))]"
  using assms
proof (induction k arbitrary: w)
  case 0
  then show ?case by (simp add: ret_def)
next
  case (Suc k)
  let ?key = "target_zone env cfg"
  from Suc.prems(1) obtain u1 w1 where
    step: "sampling_generate_tree env cfg da gd w = (Inr u1, w1)" and
    rest: "generate_n env cfg gd da k w1 = (Inr u, w')"
    by (auto simp: bnd_Inr)
  from sampling_generate_tree_Inr [OF step] doc_add_tree_full [OF Suc.prems(3)]
  have r1: "rng w1 = advance env (gen_event da) (rng w)"
    and t1: "trace w1 = trace w @ [gen_event da]"
    and h1: "heap w1 = (heap w)[gd := heap w ! gd @ [tree_bundle ?key (sample_tree env cfg (rng w) da)]]"
    by simp_all
  have len1: "gd < length (heap w1)" using h1 Suc.prems(2) by simp
  have key1: "\<forall>b\<in>set (heap w1 ! gd). map_of (zones b) ?key \<noteq> None"
    using h1 Suc.prems(2,3) by (auto simp: tree_bundle_def)
  from Suc.IH [OF rest len1 key1] r1 t1 h1 Suc.prems(2)
  show ?case by (simp add: gen_event_def)
qed

lemma sample_gen_generate_Inr:
  assumes "sample_gen_generate env cfg gd das n w = (Inr u, w')"
    and "gd < length (heap w)"
    and "\<forall>b\<in>set (heap w ! gd). map_of (zones b) (target_zone env cfg) \<noteq> None"
  shows "rng w' = rng_after env (rng w) (concat (map (replicate (nat n)) das))
       \<and> trace w' = trace w @ map gen_event (concat (map (replicate (nat n)) das))
       \<and> heap w' = (heap w)[gd := heap w ! gd
            @ map (tree_bundle (target_zone env cfg))
                (samples env cfg (rng w) (concat (map (replicate (nat n)) das)))]"
  using assms
proof (induction das arbitrary: w)
  case Nil
  then show ?case by (simp add: sample_gen_generate_def for_each_def ret_def)
next
  case (Cons da das)
  let ?key = "target_zone env cfg"
  let ?one = "replicate (nat n) da"
  from Cons.prems(1) obtain k u1 w1 where
    xr: "xrange env n = Inr k" and
    step: "generate_n env cfg gd da k w = (Inr u1, w1)" and
    rest: "sample_gen_generate env cfg gd das n w1 = (Inr u, w')"
    by (cases "xrange env n")
       (auto simp: sample_gen_generate_def for_each_def bnd_Inr bnd_lift_Inr bnd_lift_Inl raise_def)
  from xr have k: "k = nat n" by (auto simp: xrange_def split: if_splits)
  from generate_n_Inr [OF step Cons.prems(2,3)] k
  have r1: "rng w1 = rng_after env (rng w) ?one"
    and t1: "trace w1 = trace w @ map gen_event ?one"
    and h1: "heap w1 = (heap w)[gd := heap w ! gd @ map (tree_bundle ?key) (samples env cfg (rng w) ?one)]"
    by simp_all
  have len1: "gd < length (heap w1)" using h1 Cons.prems(2) by simp
  have key1: "\<forall>b\<in>set (heap w1 ! gd). map_of (zones b) ?key \<noteq> None"
    using h1 Cons.prems(2,3) by (auto simp: tree_bundle_def)
  from Cons.IH [OF rest len1 key1] r1 t1 h1 Cons.prems(2)
  show ?case by (simp add: samples_append rng_after_append)
qed

lemma ttrees_from_tree_bundles:
  "ttrees_from_doc (map (tree_bundle (language, selector)) ts) language selector = Inr ts"
  by (induction ts) (auto simp: tree_bundle_def)

lemma ext_Inr:
  "(ext env e w = (Inr u, w')) =
   (raises env (trace w @ [e]) (rng w) = None
    \<and> w' = w\<lparr>rng := advance env e (rng w), trace := trace w @ [e]\<rparr>)"
  by (auto simp: ext_def Let_def split: option.splits)

lemma log_info_Inr:
  "(log_info fmt as w = (Inr u, w')) = (w' = w\<lparr>trace := trace w @ [LogInfo fmt as]\<rparr>)"
  by (auto simp: log_info_def emit_def)

lemma new_document_Inr:
  "(new_document d w = (Inr r, w')) = (r = length (heap w) \<and> w' = w\<lparr>heap := heap w @ [d]\<rparr>)"
  by (auto simp: new_document_def)

lemma get_document_Inr:
  "(get_document r w = (Inr d, w')) = (d = heap w ! r \<and> w' = w)"
  by (auto simp: get_document_def)

lemma lift_Inr: "(lift r w = (Inr x, w')) = (r = Inr x \<and> w' = w)"
  by (auto simp: lift_def)

lemma ret_Inr: "(ret x w = (Inr y, w')) = (y = x \<and> w' = w)"
  by (auto simp: ret_def)

lemma max_from_props:
  "max_from key best xs \<in> set (best # xs) \<and> (\<forall>x\<in>set (best # xs). key x \<le> key (max_from key best xs))"
proof (induction xs arbitrary: best)
  case Nil
  then show ?case by simp
next
  case (Cons x xs)
  from Cons.IH [of "if key best < key x then x else best"]
  show ?case by (auto split: if_splits)
qed

lemma py_max_props:
  "py_max key xs = Inr m \<Longrightarrow> m \<in> set xs \<and> (\<forall>x\<in>set xs. key x \<le> key m)"
  using max_from_props [of key "hd xs" "tl xs"]
  by (cases xs) (auto simp: py_max_def)

lemma best_counts_is_best:
  assumes "best_counts env gold_tree gen_trees = Inr (f, c, p, g)"
  shows "is_best env (gold_tree, gen_trees) (c, p, g)"
proof -
  let ?cpg = "corr_pred_gold env gold_tree"
  let ?xs = "map (\<lambda>(c, p, g). (f1_from_counts env c p g, c, p, g)) (map ?cpg gen_trees)"
  from assms have m: "py_max fst ?xs = Inr (f, c, p, g)" by (simp add: best_counts_def)
  from py_max_props [OF m] have mem: "(f, c, p, g) \<in> set ?xs"
    and top: "\<forall>x\<in>set ?xs. fst x \<le> f" by auto
  from mem have in_group: "(c, p, g) \<in> set (map ?cpg gen_trees)" and f: "f = f1_from_counts env c p g"
    by (force split: prod.splits)+
  have "f1_of env (?cpg t) \<le> f1_of env (c, p, g)" if "t \<in> set gen_trees" for t
  proof -
    obtain c' p' g' where t: "?cpg t = (c', p', g')" by (cases "?cpg t")
    with that have "(f1_from_counts env c' p' g', c', p', g') \<in> set ?xs" by force
    with top have "fst (f1_from_counts env c' p' g', c', p', g') \<le> f" by blast
    with t f show ?thesis by (simp add: f1_of_def)
  qed
  with in_group show ?thesis by (simp add: is_best_def list_all_iff)
qed

lemma oracle_counts_sum:
  "oracle_counts env pairs (c0, p0, g0) = Inr (c, p, g) \<Longrightarrow>
   \<exists>bests. list_all2 (is_best env) pairs bests
     \<and> c = c0 + fst (sum_counts bests)
     \<and> p = p0 + fst (snd (sum_counts bests))
     \<and> g = g0 + snd (snd (sum_counts bests))"
proof (induction pairs arbitrary: c0 p0 g0)
  case Nil
  then show ?case by (simp add: sum_counts_def)
next
  case (Cons pair pairs)
  obtain gold_tree gen_trees where pair: "pair = (gold_tree, gen_trees)" by (cases pair)
  from Cons.prems pair obtain f tc tp tg where
    b: "best_counts env gold_tree gen_trees = Inr (f, tc, tp, tg)" and
    rest: "oracle_counts env pairs (c0 + tc, p0 + tp, g0 + tg) = Inr (c, p, g)"
    by (auto split: sum.splits)
  from Cons.IH [OF rest] obtain bests where
    bs: "list_all2 (is_best env) pairs bests" and
    sums: "c = c0 + tc + fst (sum_counts bests)" "p = p0 + tp + fst (snd (sum_counts bests))"
      "g = g0 + tg + snd (snd (sum_counts bests))"
    by auto
  from best_counts_is_best [OF b] bs pair
  have "list_all2 (is_best env) (pair # pairs) ((tc, tp, tg) # bests)" by simp
  moreover from sums have "c = c0 + fst (sum_counts ((tc, tp, tg) # bests))"
    "p = p0 + fst (snd (sum_counts ((tc, tp, tg) # bests)))"
    "g = g0 + snd (snd (sum_counts ((tc, tp, tg) # bests)))"
    by (simp_all add: sum_counts_def)
  ultimately show ?case by blast
qed

lemma sample_gen_evaluate_Inr:
  assumes "sample_gen_evaluate env cfg gd n oracle_file w = (Inr u, w')"
  shows "\<exists>golds gens bests.
      ttrees_from_doc (doc_of_file env oracle_file) (planner_language env cfg) (planner_selector env cfg)
        = Inr golds
      \<and> ttrees_from_doc (heap w ! gd) (planner_language env cfg) (planner_selector env cfg) = Inr gens
      \<and> list_all2 (is_best env) (zip golds (chunk_list gens n)) bests
      \<and> trace w' = trace w @ oracle_events env oracle_file (sum_counts bests)
      \<and> heap w' = heap w"
proof -
  from assms obtain golds gens c p g where
    golds: "ttrees_from_doc (doc_of_file env oracle_file) (planner_language env cfg)
              (planner_selector env cfg) = Inr golds" and
    gens: "ttrees_from_doc (heap w ! gd) (planner_language env cfg) (planner_selector env cfg) = Inr gens" and
    oc: "oracle_counts env (zip golds (chunk_list gens n)) (0, 0, 0) = Inr (c, p, g)" and
    tr: "trace w' = trace w @ oracle_events env oracle_file (c, p, g)" and
    hp: "heap w' = heap w"
    by (auto simp: sample_gen_evaluate_def bnd_Inr log_info_Inr ext_Inr lift_Inr get_document_Inr
        oracle_events_def)
  from oracle_counts_sum [OF oc] obtain bests where
    "list_all2 (is_best env) (zip golds (chunk_list gens n)) bests" and "(c, p, g) = sum_counts bests"
    by (auto simp: sum_counts_def)
  with golds gens tr hp show ?thesis by auto
qed

lemma write_output_Inr:
  "write_output env out gd w = (Inr u, w') \<Longrightarrow>
   trace w' = trace w @ write_events out (heap w ! gd) \<and> heap w' = heap w"
  by (cases out)
     (auto simp: write_output_def write_events_def ret_Inr bnd_Inr log_info_Inr get_document_Inr ext_Inr)

lemma sample_gen_run:
  assumes "sample_gen env args w = (Inr u, w')"
  shows "\<exists>opts f1 f2 st ev.
      getopt args ''r:n:o:w:'' = Inr (opts, [f1, f2])
      \<and> sample_gen_opts env opts sample_start = Inr st
      \<and> heap w' = heap w @ [map (tree_bundle (target_zone env (sample_cfg f1)))
             (samples env (sample_cfg f1) (sample_gen_rng env f1 f2 (rng w))
                (concat (map (replicate (nat (num_to_generate st))) (das_of_file env f2))))]
      \<and> trace w' = trace w
           @ [LogInfo ''Initializing...'' [], CandgenNew [], CandgenLoad f1,
              PlannerNew SamplingPlanner (sample_cfg f1), LogInfo ''Generating...'' [], ReadDas f2]
           @ map gen_event (concat (map (replicate (nat (num_to_generate st))) (das_of_file env f2)))
           @ ev
           @ write_events (fname_ttrees_out st)
               (map (tree_bundle (target_zone env (sample_cfg f1)))
                  (samples env (sample_cfg f1) (sample_gen_rng env f1 f2 (rng w))
                     (concat (map (replicate (nat (num_to_generate st))) (das_of_file env f2)))))
      \<and> (case oracle_eval_file st of
            None \<Rightarrow> ev = []
          | Some oracle_file \<Rightarrow>
              (\<exists>golds bests.
                 ttrees_from_doc (doc_of_file env oracle_file)
                     (planner_language env (sample_cfg f1)) (planner_selector env (sample_cfg f1))
                   = Inr golds
                 \<and> list_all2 (is_best env)
                     (zip golds
                        (chunk_list
                           (samples env (sample_cfg f1) (sample_gen_rng env f1 f2 (rng w))
                              (concat (map (replicate (nat (num_to_generate st))) (das_of_file env f2))))
                           (num_to_generate st)))
                     bests
                 \<and> ev = oracle_events env oracle_file (sum_counts bests)))"
proof -
  let ?so = "''r:n:o:w:''"
  from assms obtain opts files where g: "getopt args ?so = Inr (opts, files)"
    by (cases "getopt args ?so") (auto simp: sample_gen_def bnd_lift_Inl raise_def)
  from assms g obtain st where o: "sample_gen_opts env opts sample_start = Inr st"
    by (cases "sample_gen_opts env opts sample_start")
       (auto simp: sample_gen_def bnd_lift_Inr bnd_lift_Inl raise_def sample_start_def)
  from assms g o have len: "length files = 2"
    by (auto simp: sample_gen_def bnd_lift_Inr sample_start_def sys_exit_def raise_def
        split: if_splits)
  then obtain f1 f2 where files: "files = [f1, f2]"
    by (cases files; cases "tl files") auto
  let ?cfg = "sample_cfg f1"
  let ?key = "target_zone env ?cfg"
  let ?n = "num_to_generate st"
  let ?calls = "concat (map (replicate (nat ?n)) (das_of_file env f2))"
  let ?r0 = "sample_gen_rng env f1 f2 (rng w)"
  let ?doc = "map (tree_bundle ?key) (samples env ?cfg ?r0 ?calls)"
  let ?init = "[LogInfo ''Initializing...'' [], CandgenNew [], CandgenLoad f1,
     PlannerNew SamplingPlanner ?cfg, LogInfo ''Generating...'' [], ReadDas f2]"
  have "\<exists>w0 u1 w1 u2 w2.
      w0 = w\<lparr>heap := heap w @ [[]], rng := ?r0, trace := trace w @ ?init\<rparr>
      \<and> sample_gen_generate env ?cfg (length (heap w)) (das_of_file env f2) ?n w0 = (Inr u1, w1)
      \<and> (case oracle_eval_file st of
            None \<Rightarrow> ret ()
          | Some oracle_file \<Rightarrow> sample_gen_evaluate env ?cfg (length (heap w)) ?n oracle_file) w1
         = (Inr u2, w2)
      \<and> write_output env (fname_ttrees_out st) (length (heap w)) w2 = (Inr u, w')"
    using assms g o files
    by (cases "oracle_eval_file st")
       (auto simp: sample_gen_def lift_Inr ret_Inr sample_start_def Let_def bnd_Inr log_info_Inr
        ext_Inr new_document_Inr sample_cfg_def [symmetric] sample_gen_rng_def)
  then obtain w0 u1 w1 u2 w2 where
    w0_def: "w0 = w\<lparr>heap := heap w @ [[]], rng := ?r0, trace := trace w @ ?init\<rparr>" and
    gen: "sample_gen_generate env ?cfg (length (heap w)) (das_of_file env f2) ?n w0 = (Inr u1, w1)" and
    ev: "(case oracle_eval_file st of
            None \<Rightarrow> ret ()
          | Some oracle_file \<Rightarrow> sample_gen_evaluate env ?cfg (length (heap w)) ?n oracle_file) w1
         = (Inr u2, w2)" and
    wr: "write_output env (fname_ttrees_out st) (length (heap w)) w2 = (Inr u, w')"
    by blast
  have w0: "rng w0 = ?r0" "trace w0 = trace w @ ?init" "heap w0 = heap w @ [[]]"
    by (simp_all add: w0_def)
  have "rng w1 = rng_after env (rng w0) ?calls
       \<and> trace w1 = trace w0 @ map gen_event ?calls
       \<and> heap w1 = (heap w0)[length (heap w) := heap w0 ! length (heap w)
            @ map (tree_bundle ?key) (samples env ?cfg (rng w0) ?calls)]"
    by (rule sample_gen_generate_Inr [OF gen]) (simp_all add: w0)
  then have t1: "trace w1 = trace w @ ?init @ map gen_event ?calls"
    and h1: "heap w1 = heap w @ [?doc]"
    by (simp_all add: w0)
  have d1: "heap w1 ! length (heap w) = ?doc" using h1 by simp
  have "\<exists>ev. trace w2 = trace w1 @ ev \<and> heap w2 = heap w1
      \<and> (case oracle_eval_file st of
            None \<Rightarrow> ev = []
          | Some oracle_file \<Rightarrow>
              (\<exists>golds bests.
                 ttrees_from_doc (doc_of_file env oracle_file)
                     (planner_language env ?cfg) (planner_selector env ?cfg) = Inr golds
                 \<and> list_all2 (is_best env)
                     (zip golds (chunk_list (samples env ?cfg ?r0 ?calls) ?n)) bests
                 \<and> ev = oracle_events env oracle_file (sum_counts bests)))"
  proof (cases "oracle_eval_file st")
    case None
    with ev show ?thesis by (simp add: ret_Inr)
  next
    case (Some oracle_file)
    with ev have "sample_gen_evaluate env ?cfg (length (heap w)) ?n oracle_file w1 = (Inr u2, w2)"
      by simp
    from sample_gen_evaluate_Inr [OF this] obtain golds gens bests where
      golds: "ttrees_from_doc (doc_of_file env oracle_file)
                (planner_language env ?cfg) (planner_selector env ?cfg) = Inr golds" and
      gens: "ttrees_from_doc (heap w1 ! length (heap w))
                (planner_language env ?cfg) (planner_selector env ?cfg) = Inr gens" and
      best: "list_all2 (is_best env) (zip golds (chunk_list gens ?n)) bests" and
      tr: "trace w2 = trace w1 @ oracle_events env oracle_file (sum_counts bests)" and
      hp: "heap w2 = heap w1"
      by blast
    from gens d1 have "gens = samples env ?cfg ?r0 ?calls"
      using ttrees_from_tree_bundles [of "planner_language env ?cfg" "planner_selector env ?cfg"
          "samples env ?cfg ?r0 ?calls"]
      by (simp add: target_zone_def)
    with golds best tr hp Some show ?thesis by auto
  qed
  then obtain ev' where
    t2: "trace w2 = trace w1 @ ev'" and h2: "heap w2 = heap w1" and
    evs: "(case oracle_eval_file st of
            None \<Rightarrow> ev' = []
          | Some oracle_file \<Rightarrow>
              (\<exists>golds bests.
                 ttrees_from_doc (doc_of_file env oracle_file)
                     (planner_language env ?cfg) (planner_selector env ?cfg) = Inr golds
                 \<and> list_all2 (is_best env)
                     (zip golds (chunk_list (samples env ?cfg ?r0 ?calls) ?n)) bests
                 \<and> ev' = oracle_events env oracle_file (sum_counts bests)))"
    by blast
  from write_output_Inr [OF wr] h2 d1
  have t3: "trace w' = trace w2 @ write_events (fname_ttrees_out st) ?doc" and h3: "heap w' = heap w2"
    by simp_all
  from t1 t2 t3 have tr: "trace w' = trace w @ ?init @ map gen_event ?calls @ ev'
      @ write_events (fname_ttrees_out st) ?doc"
    by simp
  from h1 h2 h3 have hp: "heap w' = heap w @ [?doc]" by simp
  from g files o hp tr evs show ?thesis by blast
qed

lemma samples_per_da_groups:
  "list_all2 (\<lambda>da g. length g = n \<and> (\<exists>r. g = samples env cfg r (replicate n da)))
     das (samples_per_da env cfg n r das)"
  by (induction das arbitrary: r) (auto simp: length_samples)

lemma concat_samples_per_da:
  "concat (samples_per_da env cfg n r das) = samples env cfg r (concat (map (replicate n) das))"
  by (induction das arbitrary: r) (auto simp: samples_append)

lemma length_concat_replicate: "length (concat (map (replicate n) das)) = n * length das"
  by (induction das) auto

lemma chunks_concat:
  "0 < n \<Longrightarrow> \<forall>g\<in>set gs. length g = n \<Longrightarrow> chunks n (concat gs) = gs"
proof (induction gs)
  case Nil
  then show ?case by (simp add: chunks.simps)
next
  case (Cons g gs)
  then have "g \<noteq> []" by auto
  with Cons show ?case
    by (subst chunks.simps) auto
qed

lemma chunk_list_samples_per_da:
  "0 < n \<Longrightarrow> chunk_list (concat (samples_per_da env cfg (nat n) r das)) n
     = samples_per_da env cfg (nat n) r das"
  using samples_per_da_groups [of "nat n" env cfg das r]
  by (auto simp: chunk_list_def list_all2_conv_all_nth in_set_conv_nth intro!: chunks_concat)

lemma filter_oracle_events:
  "filter is_generate (oracle_events env f b) = []"
  "filter is_model_load (oracle_events env f b) = []"
  "filter is_planner_new (oracle_events env f b) = []"
  "filter is_oracle_log (oracle_events env f b)
     = [LogInfo oracle_fmt (stats_args (case b of (c, p, g) \<Rightarrow> p_r_f1_from_counts env c p g))]"
  by (simp_all add: oracle_events_def is_generate_def is_model_load_def is_planner_new_def
      is_oracle_log_def oracle_fmt_def)

lemma filter_write_events:
  "filter is_generate (write_events out d) = []"
  "filter is_model_load (write_events out d) = []"
  "filter is_planner_new (write_events out d) = []"
  "filter is_oracle_log (write_events out d) = []"
  by (cases out; simp add: write_events_def is_generate_def is_model_load_def is_planner_new_def
      is_oracle_log_def oracle_fmt_def)+

lemma filter_gen_events:
  "filter is_generate (map gen_event calls) = map gen_event calls"
  "filter is_model_load (map gen_event calls) = []"
  "filter is_planner_new (map gen_event calls) = []"
  "filter is_oracle_log (map gen_event calls) = []"
  by (induction calls; simp add: gen_event_def is_generate_def is_model_load_def is_planner_new_def
      is_oracle_log_def)+

lemma sample_gen_run_fst:
  assumes "fst (sample_gen env args w) = Inr ()"
  shows "sample_gen env args w = (Inr (), snd (sample_gen env args w))"
  using assms by (cases "sample_gen env args w") simp

subsection \<open>The events a program can add\<close>

lemma emits_ret: "emits P (ret x)"
  by (simp add: emits_def ret_def)

lemma emits_raise: "emits P (raise e)"
  by (simp add: emits_def raise_def)

lemma emits_sys_exit: "emits P (sys_exit msg)"
  by (simp add: sys_exit_def emits_raise)

lemma emits_lift: "emits P (lift r)"
  by (simp add: emits_def lift_def)

lemma emits_emit: "P e \<Longrightarrow> emits P (emit e)"
  by (simp add: emits_def emit_def)

lemma emits_log_info: "P (LogInfo fmt as) \<Longrightarrow> emits P (log_info fmt as)"
  by (simp add: log_info_def emits_emit)

lemma emits_log_debug: "P (LogDebug fmt as) \<Longrightarrow> emits P (log_debug fmt as)"
  by (simp add: log_debug_def emits_emit)

lemma emits_ext: "P e \<Longrightarrow> emits P (ext env e)"
  by (auto simp: emits_def ext_def Let_def split: option.splits)

lemma emits_random_seed: "P (RandomSeed n) \<Longrightarrow> emits P (random_seed env n)"
  by (simp add: emits_def random_seed_def)

lemma emits_new_document: "emits P (new_document d)"
  by (simp add: emits_def new_document_def)

lemma emits_get_document: "emits P (get_document r)"
  by (simp add: emits_def get_document_def)

lemma emits_update_document: "emits P (update_document r f)"
  by (simp add: emits_def update_document_def)

lemma emits_get_rng: "emits P get_rng"
  by (simp add: emits_def get_rng_def)

lemma emits_bnd: "emits P m \<Longrightarrow> (\<And>x. emits P (f x)) \<Longrightarrow> emits P (bnd m f)"
proof (unfold emits_def, intro allI)
  fix w
  assume m: "\<forall>w. \<exists>tr. trace (snd (m w)) = trace w @ tr \<and> list_all P tr"
    and f: "\<And>x. \<forall>w. \<exists>tr. trace (snd (f x w)) = trace w @ tr \<and> list_all P tr"
  obtain r w1 where mw: "m w = (r, w1)" by (cases "m w")
  from m mw obtain tr1 where t1: "trace w1 = trace w @ tr1" "list_all P tr1"
    by (metis snd_conv)
  show "\<exists>tr. trace (snd (bnd m f w)) = trace w @ tr \<and> list_all P tr"
  proof (cases r)
    case (Inl e)
    with mw t1 show ?thesis by (auto simp: bnd_def)
  next
    case (Inr x)
    from f [of x] obtain tr2 where "trace (snd (f x w1)) = trace w1 @ tr2" "list_all P tr2"
      by blast
    with Inr mw t1 show ?thesis by (auto simp: bnd_def)
  qed
qed

lemma emits_for_each: "(\<And>x. emits P (body x)) \<Longrightarrow> emits P (for_each xs body)"
  by (induction xs) (auto simp: for_each_def emits_ret intro: emits_bnd)

lemmas emits_intros = emits_ret emits_raise emits_sys_exit emits_lift emits_log_info emits_log_debug
  emits_ext emits_random_seed emits_new_document emits_get_document emits_update_document
  emits_get_rng emits_bnd emits_for_each

lemma emits_candgen_train:
  assumes "\<And>fmt as. P (LogInfo fmt as)" "\<And>c. P (CandgenNew c)" "\<And>a b. P (CandgenTrain a b)"
    "\<And>m f. P (CandgenSave m f)"
  shows "emits P (candgen_train env args)"
  unfolding candgen_train_def Let_def
  by (auto intro!: emits_intros assms split: prod.splits)

lemma emits_percrank_train_opts:
  assumes "\<And>f. P (SetDebugStream f)"
  shows "emits P (percrank_train_opts env opts st)"
  by (induction opts arbitrary: st)
     (auto intro!: emits_intros assms split: option.splits)

lemma emits_percrank_train:
  assumes "\<And>fmt as. P (LogInfo fmt as)" "\<And>f. P (SetDebugStream f)" "\<And>f. P (ConfigLoad f)"
    "\<And>r. P (RankerNew r)" "\<And>r a b c. P (RankerTrain r a b c)" "\<And>r f. P (RankerSave r f)"
  shows "emits P (percrank_train env args)"
  unfolding percrank_train_def Let_def
  by (auto intro!: emits_intros emits_percrank_train_opts assms split: prod.splits)

lemma emits_sampling_generate_tree:
  assumes "\<And>da. P (GenerateTree SamplingPlanner da False)"
  shows "emits P (sampling_generate_tree env cfg da gd)"
  unfolding sampling_generate_tree_def
  by (auto intro!: emits_intros assms)

lemma emits_generate_n:
  assumes "\<And>da. P (GenerateTree SamplingPlanner da False)"
  shows "emits P (generate_n env cfg gd da k)"
  by (induction k) (auto intro!: emits_intros emits_sampling_generate_tree assms)

lemma emits_write_output:
  assumes "\<And>fmt as. P (LogInfo fmt as)" "\<And>f d. P (WriteYAML f d)"
  shows "emits P (write_output env out gd)"
  unfolding write_output_def
  by (auto intro!: emits_intros assms split: option.splits)

lemma emits_sample_gen:
  assumes "\<And>fmt as. P (LogInfo fmt as)" "P (CandgenNew [])" "\<And>f. P (CandgenLoad f)"
    "\<And>f. P (PlannerNew SamplingPlanner (sample_cfg f))" "\<And>f. P (ReadDas f)"
    "\<And>da. P (GenerateTree SamplingPlanner da False)" "\<And>f. P (ReadTTrees f)"
    "\<And>f d. P (WriteYAML f d)"
  shows "emits P (sample_gen env args)"
  unfolding sample_gen_def sample_gen_generate_def sample_gen_evaluate_def Let_def
  by (auto intro!: emits_intros emits_generate_n emits_write_output assms
      simp: sample_cfg_def [symmetric] split: prod.splits option.splits)

lemma emits_asearch_gen_opts:
  assumes "\<And>f. P (SetDebugStream f)"
  shows "emits P (asearch_gen_opts env opts st)"
  by (induction opts arbitrary: st)
     (auto intro!: emits_intros assms)

lemma emits_asearch_generate_tree:
  assumes "\<And>da rl. P (GenerateTree ASearchPlanner da rl)"
  shows "emits P (asearch_generate_tree env cfg da gd rl)"
  unfolding asearch_generate_tree_def
  by (auto intro!: emits_intros assms split: prod.splits option.splits)

lemma emits_analyze_lists:
  assumes "\<And>fmt as. P (LogDebug fmt as)" "\<And>da rl. P (GenerateTree ASearchPlanner da rl)"
    "\<And>g ol cl. P (AnalyzerAppend g ol cl)"
  shows "emits P (analyze_lists env cfg gd xs acc)"
  by (induction xs arbitrary: acc)
     (auto intro!: emits_intros emits_asearch_generate_tree assms split: prod.splits)

lemma emits_score_bundles:
  assumes "\<And>a b. P (EvaluatorAppend a b)"
  shows "emits P (score_bundles env cfg ed xs acc)"
  by (induction xs arbitrary: acc)
     (auto intro!: emits_intros assms split: prod.splits)

lemma emits_asearch_gen_evaluate:
  assumes "\<And>fmt as. P (LogInfo fmt as)" "\<And>fmt as. P (LogDebug fmt as)"
    "\<And>da rl. P (GenerateTree ASearchPlanner da rl)"
    "\<And>g ol cl. P (AnalyzerAppend g ol cl)" "\<And>a b. P (EvaluatorAppend a b)"
  shows "emits P (asearch_gen_evaluate env cfg das ed gd sel)"
  unfolding asearch_gen_evaluate_def
  by (auto intro!: emits_intros emits_analyze_lists emits_score_bundles assms)

lemma emits_asearch_gen:
  assumes "\<And>fmt as. P (LogInfo fmt as)" "\<And>fmt as. P (LogDebug fmt as)"
    "\<And>f. P (SetDebugStream f)" "P (CandgenNew [])" "\<And>f. P (CandgenLoad f)"
    "\<And>f. P (RankerLoad f)" "\<And>f. P (ConfigLoad f)"
    "\<And>c. P (PlannerNew ASearchPlanner c)" "\<And>f. P (ReadDas f)" "\<And>f. P (ReadTTrees f)"
    "\<And>da rl. P (GenerateTree ASearchPlanner da rl)"
    "\<And>g ol cl. P (AnalyzerAppend g ol cl)" "\<And>a b. P (EvaluatorAppend a b)"
    "\<And>f d. P (WriteYAML f d)"
  shows "emits P (asearch_gen env args)"
  unfolding asearch_gen_def Let_def
  by (auto intro!: emits_intros emits_asearch_gen_opts emits_asearch_generate_tree
      emits_asearch_gen_evaluate emits_write_output assms
      split: prod.splits option.splits)

subsection \<open>Stepping through a run\<close>

lemma demo_fields:
  "python_implementation demo_env = ''CPython''"
  "python_version demo_env = ''2.7.6''"
  "sys_maxint demo_env = 9223372036854775807"
  "py_int demo_env = dec_int"
  "seed_state demo_env = nat"
  "raises demo_env = (\<lambda>tr r. None)"
  "advance demo_env = (\<lambda>e r. r + 2)"
  "das_of_file demo_env = (\<lambda>f. [[(''inform'', ''food'', ''Italian'')], [(''request'', ''area'', [])]])"
  "doc_of_file demo_env = (\<lambda>f. [\<lparr>zones = [((''en'', []), 10)], texts = []\<rparr>,
                                  \<lparr>zones = [((''en'', []), 9)], texts = []\<rparr>])"
  "planner_language demo_env = (\<lambda>cfg. ''en'')"
  "planner_selector demo_env = (\<lambda>cfg. [])"
  "sample_tree demo_env = (\<lambda>cfg r da. r)"
  "asearch_tree demo_env = (\<lambda>cfg r da. (Some r, [r + 1], [r, 5]))"
  "tree_data demo_env = id"
  "corr_pred_gold demo_env = (\<lambda>g t. (if g = t then 3 else 1, 3, 3))"
  "lists_stats demo_env = (\<lambda>l. (0, 0, 0))"
  "evaluator_p_r_f1 demo_env = (\<lambda>ty l. (0, 0, 0))"
  by (simp_all add: demo_env_def)

lemma demo_f1:
  "f1_from_counts demo_env 3 3 3 = 1"
  "f1_from_counts demo_env 1 3 3 = 1 / 3"
  "p_r_f1_from_counts demo_env 4 6 6 = (2 / 3, 2 / 3, 2 / 3)"
  by (simp_all add: demo_env_def)

lemma demo_getopt_sample:
  "getopt [''-n'', ''2'', ''-w'', ''out'', ''model'', ''das''] ''r:n:o:w:''
     = Inr ([(''-n'', ''2''), (''-w'', ''out'')], [''model'', ''das''])"
  "getopt [''-n'', ''2'', ''-o'', ''gold'', ''model'', ''das''] ''r:n:o:w:''
     = Inr ([(''-n'', ''2''), (''-o'', ''gold'')], [''model'', ''das''])"
  by code_simp+

lemma generate_n_2:
  "generate_n env cfg gd da 2 =
     bnd (sampling_generate_tree env cfg da gd) (\<lambda>_.
     bnd (sampling_generate_tree env cfg da gd) (\<lambda>_. ret ()))"
  by (simp add: numeral_2_eq_2)

lemma demo_chunks: "chunks 2 [8, 10, 12, 14 :: nat] = [[8, 10], [12, 14]]"
  by code_simp

lemma demo_best_counts:
  "best_counts demo_env 10 [8, 10] = Inr (1, 3, 3, 3)"
  "best_counts demo_env 9 [12, 14] = Inr (1 / 3, 1, 3, 3)"
  by (simp_all add: best_counts_def py_max_def demo_fields demo_f1)

lemma bnd_assoc: "bnd (bnd m f) g = bnd m (\<lambda>x. bnd (f x) g)"
  by (auto simp: bnd_def fun_eq_iff split: prod.splits sum.splits)

lemma step_log_info:
  "bnd (log_info fmt as) f w = f () (w\<lparr>trace := trace w @ [LogInfo fmt as]\<rparr>)"
  by (simp add: bnd_def log_info_def emit_def)

lemma step_log_debug:
  "bnd (log_debug fmt as) f w = f () (w\<lparr>trace := trace w @ [LogDebug fmt as]\<rparr>)"
  by (simp add: bnd_def log_debug_def emit_def)

lemma step_ext:
  "raises env (trace w @ [e]) (rng w) = None \<Longrightarrow>
   bnd (ext env e) f w = f () (w\<lparr>rng := advance env e (rng w), trace := trace w @ [e]\<rparr>)"
  by (simp add: bnd_def ext_def)

lemma step_random_seed:
  "bnd (random_seed env n) f w
     = f () (w\<lparr>rng := seed_state env n, trace := trace w @ [RandomSeed n]\<rparr>)"
  by (simp add: bnd_def random_seed_def)

lemma step_new_document:
  "bnd (new_document d) f w = f (length (heap w)) (w\<lparr>heap := heap w @ [d]\<rparr>)"
  by (simp add: bnd_def new_document_def)

lemma step_get_document: "bnd (get_document r) f w = f (heap w ! r) w"
  by (simp add: bnd_def get_document_def)

lemma step_get_rng: "bnd get_rng f w = f (rng w) w"
  by (simp add: bnd_def get_rng_def)

lemma step_update_document:
  "bnd (update_document r g) f w = f () (w\<lparr>heap := (heap w)[r := g (heap w ! r)]\<rparr>)"
  by (simp add: bnd_def update_document_def)

lemma step_lift: "bnd (lift (Inr x)) f w = f x w" "bnd (lift (Inl e)) f w = (Inl e, w)"
  by (simp_all add: bnd_def lift_def)

lemma step_ret: "bnd (ret x) f w = f x w"
  by (simp add: bnd_def ret_def)

lemma step_raise: "bnd (raise e) f w = (Inl e, w)" "bnd (sys_exit msg) f w = (Inl (SystemExit msg), w)"
  by (simp_all add: bnd_def raise_def sys_exit_def)

lemma last_log_info: "log_info fmt as w = (Inr (), w\<lparr>trace := trace w @ [LogInfo fmt as]\<rparr>)"
  by (simp add: log_info_def emit_def)

lemma last_ext:
  "raises env (trace w @ [e]) (rng w) = None \<Longrightarrow>
   ext env e w = (Inr (), w\<lparr>rng := advance env e (rng w), trace := trace w @ [e]\<rparr>)"
  by (simp add: ext_def)

lemma last_update_document:
  "update_document r g w = (Inr (), w\<lparr>heap := (heap w)[r := g (heap w ! r)]\<rparr>)"
  by (simp add: update_document_def)

lemma last_ret: "ret x w = (Inr x, w)"
  by (simp add: ret_def)

lemma last_raise: "raise e w = (Inl e, w)" "sys_exit msg w = (Inl (SystemExit msg), w)"
  by (simp_all add: raise_def sys_exit_def)

lemmas step_simps = bnd_assoc step_log_info step_log_debug step_ext step_random_seed
  step_new_document step_get_document step_get_rng step_update_document step_lift step_ret
  step_raise last_log_info last_ext last_update_document last_ret last_raise for_each_def
  start_def Let_def

lemmas sample_defs = sample_gen_def sample_gen_generate_def sample_gen_evaluate_def xrange_def
  sampling_generate_tree_def write_output_def target_zone_def generate_n_2 chunk_list_def
  stats_args_def sample_cfg_def tree_bundle_def oracle_fmt_def

lemma demo_sample_run_w:
  "sample_gen demo_env [''-n'', ''2'', ''-w'', ''out'', ''model'', ''das''] (start 0) =
     (Inr (),
      \<lparr>rng = 18,
       trace = [LogInfo ''Initializing...'' [], CandgenNew [], CandgenLoad ''model'',
                PlannerNew SamplingPlanner (sample_cfg ''model''),
                LogInfo ''Generating...'' [], ReadDas ''das'',
                GenerateTree SamplingPlanner [(''inform'', ''food'', ''Italian'')] False,
                GenerateTree SamplingPlanner [(''inform'', ''food'', ''Italian'')] False,
                GenerateTree SamplingPlanner [(''request'', ''area'', [])] False,
                GenerateTree SamplingPlanner [(''request'', ''area'', [])] False,
                LogInfo ''Writing output...'' [],
                WriteYAML ''out'' (map (tree_bundle (''en'', [])) [8, 10, 12, 14])],
       heap = [map (tree_bundle (''en'', [])) [8, 10, 12, 14]]\<rparr>)"
  by (simp add: demo_getopt_sample demo_dec_int sample_defs step_simps demo_fields)

lemma demo_sample_run_o:
  "sample_gen demo_env [''-n'', ''2'', ''-o'', ''gold'', ''model'', ''das''] (start 0) =
     (Inr (),
      \<lparr>rng = 18,
       trace = [LogInfo ''Initializing...'' [], CandgenNew [], CandgenLoad ''model'',
                PlannerNew SamplingPlanner (sample_cfg ''model''),
                LogInfo ''Generating...'' [], ReadDas ''das'',
                GenerateTree SamplingPlanner [(''inform'', ''food'', ''Italian'')] False,
                GenerateTree SamplingPlanner [(''inform'', ''food'', ''Italian'')] False,
                GenerateTree SamplingPlanner [(''request'', ''area'', [])] False,
                GenerateTree SamplingPlanner [(''request'', ''area'', [])] False,
                LogInfo ''Evaluating oracle F1...'' [],
                LogInfo ''Loading gold data from gold'' [], ReadTTrees ''gold'',
                LogInfo ''Gold data loaded.'' [],
                LogInfo oracle_fmt [F (2 / 3), F (2 / 3), F (2 / 3)]],
       heap = [map (tree_bundle (''en'', [])) [8, 10, 12, 14]]\<rparr>)"
  by (simp add: demo_getopt_sample demo_dec_int sample_defs step_simps demo_fields
      chunks.simps best_counts_def py_max_def demo_f1)

lemma start_fields: "rng (start r) = r" "trace (start r) = []" "heap (start r) = []"
  by (simp_all add: start_def)

lemma demo_groups:
  "samples_per_da demo_env (sample_cfg ''model'') 2 8 (das_of_file demo_env ''das'')
     = [[8, 10], [12, 14]]"
  by (simp add: demo_fields numeral_2_eq_2)

lemma demo_main_run:
  "main demo_env [''tgen.py'', ''candgen_train'', ''-p'', ''3'', ''a'', ''b'', ''c''] (start r) =
     (Inr (),
      \<lparr>rng = 1212,
       trace = [RandomSeed 1206,
                LogInfo ''Running on %s version %s'' [S ''CPython'', S ''2.7.6''],
                LogInfo ''Training candidate generator...'' [],
                CandgenNew [(''prune_threshold'', 3)],
                CandgenTrain ''a'' ''b'',
                CandgenSave (RandomCandidateGenerator [(''prune_threshold'', 3)] (Trained ''a'' ''b'')) ''c'',
                LogInfo ''Done.'' []],
       heap = []\<rparr>)"
  by (simp add: main_def candgen_train_def demo_getopt_wrong_counts demo_dec_int step_simps
      demo_fields)

subsection \<open>C1: oracle evaluation picks the best of N and micro-averages\<close>

text \<open>
  C1. In a run of \<open>sample_gen\<close> that returns normally with an oracle file (\<open>-o\<close>),
  the gold trees are paired in order with the groups of generated trees
  (\<open>chunk_list\<close>; for \<open>N \<ge> 1\<close> these are the groups of N samples per dialogue act).
  For every pair, the counts added to the totals are those of a tree of the group whose
  F1 against the gold tree (\<open>f1_from_counts\<close> of \<open>corr_pred_gold\<close>) is greatest in the
  group. The three counts are summed over all pairs, and precision, recall and F1 are
  computed once, from the sums, and logged in one message: the corpus-level figures are
  micro-averaged. Without \<open>-o\<close> nothing of the kind is logged.
\<close>

theorem oracle_best_of_n_micro_average:
  assumes "fst (sample_gen env args w) = Inr ()"
  shows "\<exists>opts cand_model da_test st.
      getopt args ''r:n:o:w:'' = Inr (opts, [cand_model, da_test])
      \<and> sample_gen_opts env opts sample_start = Inr st
      \<and> (let n = num_to_generate st;
              cfg = sample_cfg cand_model;
              groups = samples_per_da env cfg (nat n) (sample_gen_rng env cand_model da_test (rng w))
                         (das_of_file env da_test);
              logged = filter is_oracle_log (new_events w (snd (sample_gen env args w)))
          in case oracle_eval_file st of
               None \<Rightarrow> logged = []
             | Some oracle_file \<Rightarrow>
                 (\<exists>golds bests.
                    ttrees_from_doc (doc_of_file env oracle_file)
                        (planner_language env cfg) (planner_selector env cfg) = Inr golds
                    \<and> list_all2 (is_best env) (zip golds (chunk_list (concat groups) n)) bests
                    \<and> (0 < n \<longrightarrow> chunk_list (concat groups) n = groups)
                    \<and> logged = [LogInfo oracle_fmt
                         (stats_args (case sum_counts bests of (c, p, g) \<Rightarrow>
                            p_r_f1_from_counts env c p g))]))"
proof -
  let ?w' = "snd (sample_gen env args w)"
  from sample_gen_run [OF sample_gen_run_fst [OF assms]]
  obtain opts f1 f2 st ev where
    g: "getopt args ''r:n:o:w:'' = Inr (opts, [f1, f2])" and
    o: "sample_gen_opts env opts sample_start = Inr st" and
    hp: "heap ?w' = heap w @ [map (tree_bundle (target_zone env (sample_cfg f1)))
             (samples env (sample_cfg f1) (sample_gen_rng env f1 f2 (rng w))
                (concat (map (replicate (nat (num_to_generate st))) (das_of_file env f2))))]" and
    tr: "trace ?w' = trace w
           @ [LogInfo ''Initializing...'' [], CandgenNew [], CandgenLoad f1,
              PlannerNew SamplingPlanner (sample_cfg f1), LogInfo ''Generating...'' [], ReadDas f2]
           @ map gen_event (concat (map (replicate (nat (num_to_generate st))) (das_of_file env f2)))
           @ ev
           @ write_events (fname_ttrees_out st)
               (map (tree_bundle (target_zone env (sample_cfg f1)))
                  (samples env (sample_cfg f1) (sample_gen_rng env f1 f2 (rng w))
                     (concat (map (replicate (nat (num_to_generate st))) (das_of_file env f2)))))" and
    ev: "(case oracle_eval_file st of
            None \<Rightarrow> ev = []
          | Some oracle_file \<Rightarrow>
              (\<exists>golds bests.
                 ttrees_from_doc (doc_of_file env oracle_file)
                     (planner_language env (sample_cfg f1)) (planner_selector env (sample_cfg f1))
                   = Inr golds
                 \<and> list_all2 (is_best env)
                     (zip golds
                        (chunk_list
                           (samples env (sample_cfg f1) (sample_gen_rng env f1 f2 (rng w))
                              (concat (map (replicate (nat (num_to_generate st))) (das_of_file env f2))))
                           (num_to_generate st)))
                     bests
                 \<and> ev = oracle_events env oracle_file (sum_counts bests)))"
    by blast
  let ?n = "num_to_generate st"
  let ?cfg = "sample_cfg f1"
  let ?groups = "samples_per_da env ?cfg (nat ?n) (sample_gen_rng env f1 f2 (rng w)) (das_of_file env f2)"
  have logged: "filter is_oracle_log (new_events w ?w') = filter is_oracle_log ev"
    using tr
    by (simp add: new_events_def filter_gen_events filter_write_events is_oracle_log_def oracle_fmt_def)
  have "case oracle_eval_file st of
               None \<Rightarrow> filter is_oracle_log (new_events w ?w') = []
             | Some oracle_file \<Rightarrow>
                 (\<exists>golds bests.
                    ttrees_from_doc (doc_of_file env oracle_file)
                        (planner_language env ?cfg) (planner_selector env ?cfg) = Inr golds
                    \<and> list_all2 (is_best env) (zip golds (chunk_list (concat ?groups) ?n)) bests
                    \<and> (0 < ?n \<longrightarrow> chunk_list (concat ?groups) ?n = ?groups)
                    \<and> filter is_oracle_log (new_events w ?w') = [LogInfo oracle_fmt
                         (stats_args (case sum_counts bests of (c, p, g) \<Rightarrow>
                            p_r_f1_from_counts env c p g))])"
  proof (cases "oracle_eval_file st")
    case None
    with ev logged show ?thesis by simp
  next
    case (Some oracle_file)
    with ev obtain golds bests where
      golds: "ttrees_from_doc (doc_of_file env oracle_file)
                (planner_language env ?cfg) (planner_selector env ?cfg) = Inr golds" and
      best: "list_all2 (is_best env) (zip golds (chunk_list (concat ?groups) ?n)) bests" and
      e: "ev = oracle_events env oracle_file (sum_counts bests)"
      by (auto simp: concat_samples_per_da)
    from e logged have "filter is_oracle_log (new_events w ?w') = [LogInfo oracle_fmt
                         (stats_args (case sum_counts bests of (c, p, g) \<Rightarrow>
                            p_r_f1_from_counts env c p g))]"
      by (simp add: filter_oracle_events)
    with golds best Some chunk_list_samples_per_da [of ?n env ?cfg "sample_gen_rng env f1 f2 (rng w)"
        "das_of_file env f2"]
    show ?thesis by auto
  qed
  with g o have "getopt args ''r:n:o:w:'' = Inr (opts, [f1, f2])
      \<and> sample_gen_opts env opts sample_start = Inr st
      \<and> (case oracle_eval_file st of
               None \<Rightarrow> filter is_oracle_log (new_events w ?w') = []
             | Some oracle_file \<Rightarrow>
                 (\<exists>golds bests.
                    ttrees_from_doc (doc_of_file env oracle_file)
                        (planner_language env ?cfg) (planner_selector env ?cfg) = Inr golds
                    \<and> list_all2 (is_best env) (zip golds (chunk_list (concat ?groups) ?n)) bests
                    \<and> (0 < ?n \<longrightarrow> chunk_list (concat ?groups) ?n = ?groups)
                    \<and> filter is_oracle_log (new_events w ?w') = [LogInfo oracle_fmt
                         (stats_args (case sum_counts bests of (c, p, g) \<Rightarrow>
                            p_r_f1_from_counts env c p g))]))"
    by simp
  then show ?thesis
    unfolding Let_def by (intro exI)
qed

theorem oracle_best_of_n_micro_average_witness:
  "fst (sample_gen demo_env [''-n'', ''2'', ''-o'', ''gold'', ''model'', ''das''] (start 0)) = Inr ()
   \<and> filter is_oracle_log
         (new_events (start 0)
            (snd (sample_gen demo_env [''-n'', ''2'', ''-o'', ''gold'', ''model'', ''das''] (start 0))))
       = [LogInfo oracle_fmt [F (2 / 3), F (2 / 3), F (2 / 3)]]
   \<and> is_best demo_env (10, [8, 10]) (3, 3, 3)
   \<and> is_best demo_env (9, [12, 14]) (1, 3, 3)
   \<and> sum_counts [(3, 3, 3), (1, 3, 3)] = (4, 6, 6)
   \<and> stats_args (p_r_f1_from_counts demo_env 4 6 6) = [F (2 / 3), F (2 / 3), F (2 / 3)]"
  using oracle_best_of_n_micro_average
      [of demo_env "[''-n'', ''2'', ''-o'', ''gold'', ''model'', ''das'']" "start 0"]
  by (simp add: demo_sample_run_o new_events_def start_fields is_oracle_log_def is_best_def
      f1_of_def sum_counts_def demo_fields demo_f1 stats_args_def oracle_fmt_def)

subsection \<open>C2: N trees per dialogue act, in input order\<close>

text \<open>
  C2. In a run of \<open>sample_gen\<close> that returns normally, with \<open>N = num_to_generate\<close>
  and the dialogue acts read from the test file, the planner is called exactly N times
  for each dialogue act, the acts taken in input order, and the output document consists
  of the trees of these calls in the same order, one bundle each: one group of N
  consecutive trees per dialogue act, the groups in the order of the acts. With \<open>-w\<close>,
  this document is what is written last.
\<close>

theorem sample_gen_output_order:
  assumes "fst (sample_gen env args w) = Inr ()"
  shows "\<exists>opts cand_model da_test st.
      getopt args ''r:n:o:w:'' = Inr (opts, [cand_model, da_test])
      \<and> sample_gen_opts env opts sample_start = Inr st
      \<and> (let n = nat (num_to_generate st);
              das = das_of_file env da_test;
              cfg = sample_cfg cand_model;
              groups = samples_per_da env cfg n (sample_gen_rng env cand_model da_test (rng w)) das;
              w' = snd (sample_gen env args w);
              gen_doc = last (heap w')
          in list_all2 (\<lambda>da g. length g = n \<and> (\<exists>r. g = samples env cfg r (replicate n da)))
               das groups
           \<and> gen_doc = map (tree_bundle (target_zone env cfg)) (concat groups)
           \<and> length gen_doc = n * length das
           \<and> filter is_generate (new_events w w') = map gen_event (concat (map (replicate n) das))
           \<and> (\<forall>out. fname_ttrees_out st = Some out \<longrightarrow> last (trace w') = WriteYAML out gen_doc))"
proof -
  let ?w' = "snd (sample_gen env args w)"
  from sample_gen_run [OF sample_gen_run_fst [OF assms]]
  obtain opts f1 f2 st ev where
    g: "getopt args ''r:n:o:w:'' = Inr (opts, [f1, f2])" and
    o: "sample_gen_opts env opts sample_start = Inr st" and
    hp: "heap ?w' = heap w @ [map (tree_bundle (target_zone env (sample_cfg f1)))
             (samples env (sample_cfg f1) (sample_gen_rng env f1 f2 (rng w))
                (concat (map (replicate (nat (num_to_generate st))) (das_of_file env f2))))]" and
    tr: "trace ?w' = trace w
           @ [LogInfo ''Initializing...'' [], CandgenNew [], CandgenLoad f1,
              PlannerNew SamplingPlanner (sample_cfg f1), LogInfo ''Generating...'' [], ReadDas f2]
           @ map gen_event (concat (map (replicate (nat (num_to_generate st))) (das_of_file env f2)))
           @ ev
           @ write_events (fname_ttrees_out st)
               (map (tree_bundle (target_zone env (sample_cfg f1)))
                  (samples env (sample_cfg f1) (sample_gen_rng env f1 f2 (rng w))
                     (concat (map (replicate (nat (num_to_generate st))) (das_of_file env f2)))))" and
    ev: "(case oracle_eval_file st of
            None \<Rightarrow> ev = []
          | Some oracle_file \<Rightarrow>
              (\<exists>golds bests.
                 ttrees_from_doc (doc_of_file env oracle_file)
                     (planner_language env (sample_cfg f1)) (planner_selector env (sample_cfg f1))
                   = Inr golds
                 \<and> list_all2 (is_best env)
                     (zip golds
                        (chunk_list
                           (samples env (sample_cfg f1) (sample_gen_rng env f1 f2 (rng w))
                              (concat (map (replicate (nat (num_to_generate st))) (das_of_file env f2))))
                           (num_to_generate st)))
                     bests
                 \<and> ev = oracle_events env oracle_file (sum_counts bests)))"
    by blast
  let ?n = "nat (num_to_generate st)"
  let ?das = "das_of_file env f2"
  let ?cfg = "sample_cfg f1"
  let ?groups = "samples_per_da env ?cfg ?n (sample_gen_rng env f1 f2 (rng w)) ?das"
  let ?doc = "map (tree_bundle (target_zone env ?cfg)) (concat ?groups)"
  have doc: "last (heap ?w') = ?doc"
    using hp by (simp add: concat_samples_per_da)
  have len: "length ?doc = ?n * length ?das"
    by (simp add: concat_samples_per_da length_samples length_concat_replicate)
  have evg: "filter is_generate ev = []"
    using ev by (cases "oracle_eval_file st") (auto simp: filter_oracle_events)
  have gen: "filter is_generate (new_events w ?w') = map gen_event (concat (map (replicate ?n) ?das))"
    using tr evg
    by (simp add: new_events_def filter_gen_events filter_write_events is_generate_def)
  have wr: "\<forall>out. fname_ttrees_out st = Some out \<longrightarrow> last (trace ?w') = WriteYAML out ?doc"
    using tr by (auto simp: write_events_def concat_samples_per_da)
  have len': "length (last (heap ?w')) = ?n * length ?das"
    using len doc by simp
  note grp = samples_per_da_groups [of ?n env ?cfg ?das "sample_gen_rng env f1 f2 (rng w)"]
  have "getopt args ''r:n:o:w:'' = Inr (opts, [f1, f2])
      \<and> sample_gen_opts env opts sample_start = Inr st
      \<and> (list_all2 (\<lambda>da g. length g = ?n \<and> (\<exists>r. g = samples env ?cfg r (replicate ?n da)))
               ?das ?groups
           \<and> last (heap ?w') = ?doc
           \<and> length (last (heap ?w')) = ?n * length ?das
           \<and> filter is_generate (new_events w ?w') = map gen_event (concat (map (replicate ?n) ?das))
           \<and> (\<forall>out. fname_ttrees_out st = Some out \<longrightarrow> last (trace ?w') = WriteYAML out (last (heap ?w'))))"
    using g o grp doc len' gen wr by (intro conjI) simp_all
  then show ?thesis
    unfolding Let_def by (intro exI)
qed

theorem sample_gen_output_order_witness:
  "fst (sample_gen demo_env [''-n'', ''2'', ''-w'', ''out'', ''model'', ''das''] (start 0)) = Inr ()
   \<and> last (heap (snd (sample_gen demo_env [''-n'', ''2'', ''-w'', ''out'', ''model'', ''das'']
                        (start 0))))
       = map (tree_bundle (''en'', [])) (concat [[8, 10], [12, 14]])
   \<and> samples_per_da demo_env (sample_cfg ''model'') 2 8 (das_of_file demo_env ''das'')
       = [[8, 10], [12, 14]]
   \<and> filter is_generate
         (new_events (start 0)
            (snd (sample_gen demo_env [''-n'', ''2'', ''-w'', ''out'', ''model'', ''das''] (start 0))))
       = [GenerateTree SamplingPlanner [(''inform'', ''food'', ''Italian'')] False,
          GenerateTree SamplingPlanner [(''inform'', ''food'', ''Italian'')] False,
          GenerateTree SamplingPlanner [(''request'', ''area'', [])] False,
          GenerateTree SamplingPlanner [(''request'', ''area'', [])] False]
   \<and> last (trace (snd (sample_gen demo_env [''-n'', ''2'', ''-w'', ''out'', ''model'', ''das'']
                         (start 0))))
       = WriteYAML ''out'' (map (tree_bundle (''en'', [])) [8, 10, 12, 14])"
  using sample_gen_output_order
      [of demo_env "[''-n'', ''2'', ''-w'', ''out'', ''model'', ''das'']" "start 0"]
  by (simp add: demo_sample_run_w demo_groups new_events_def start_fields is_generate_def)

subsection \<open>C3: the sampling planner is built from the candidate generator alone\<close>

text \<open>
  C3. Whatever \<open>sample_gen\<close> is called with and however it ends, every call it makes
  is a log message, the construction of a candidate generator with an empty
  configuration, the loading of a candidate-generator model, the construction of a
  sampling planner whose \<open>candgen\<close> and \<open>ranker\<close> entries are one and the same
  loaded candidate generator, a read of an input file, a sampling call or the writing
  of the output: no ranker is constructed or loaded. In a run that returns normally,
  exactly one model is loaded, the candidate-generator model named first on the command
  line, and exactly one planner is built, with that object under both keys.
\<close>

theorem sample_gen_candgen_only:
  "(\<exists>tr. trace (snd (sample_gen env args w)) = trace w @ tr \<and> list_all sampling_event tr)
   \<and> (fst (sample_gen env args w) = Inr () \<longrightarrow>
        (\<exists>opts cand_model da_test.
           getopt args ''r:n:o:w:'' = Inr (opts, [cand_model, da_test])
           \<and> filter is_model_load (new_events w (snd (sample_gen env args w)))
               = [CandgenLoad cand_model]
           \<and> filter is_planner_new (new_events w (snd (sample_gen env args w)))
               = [PlannerNew SamplingPlanner
                    \<lparr>cfg_source = None,
                     cfg_set = [(''candgen'', Obj (RandomCandidateGenerator [] (Loaded cand_model))),
                                (''ranker'', Obj (RandomCandidateGenerator [] (Loaded cand_model)))]\<rparr>]))"
proof (intro conjI impI)
  have "emits sampling_event (sample_gen env args)"
    by (rule emits_sample_gen)
       (simp_all add: sampling_event_def candgen_only_def sample_cfg_def)
  then show "\<exists>tr. trace (snd (sample_gen env args w)) = trace w @ tr \<and> list_all sampling_event tr"
    by (simp add: emits_def)
next
  let ?w' = "snd (sample_gen env args w)"
  assume ok: "fst (sample_gen env args w) = Inr ()"
  from sample_gen_run [OF sample_gen_run_fst [OF ok]]
  obtain opts f1 f2 st ev where
    g: "getopt args ''r:n:o:w:'' = Inr (opts, [f1, f2])" and
    o: "sample_gen_opts env opts sample_start = Inr st" and
    hp: "heap ?w' = heap w @ [map (tree_bundle (target_zone env (sample_cfg f1)))
             (samples env (sample_cfg f1) (sample_gen_rng env f1 f2 (rng w))
                (concat (map (replicate (nat (num_to_generate st))) (das_of_file env f2))))]" and
    tr: "trace ?w' = trace w
           @ [LogInfo ''Initializing...'' [], CandgenNew [], CandgenLoad f1,
              PlannerNew SamplingPlanner (sample_cfg f1), LogInfo ''Generating...'' [], ReadDas f2]
           @ map gen_event (concat (map (replicate (nat (num_to_generate st))) (das_of_file env f2)))
           @ ev
           @ write_events (fname_ttrees_out st)
               (map (tree_bundle (target_zone env (sample_cfg f1)))
                  (samples env (sample_cfg f1) (sample_gen_rng env f1 f2 (rng w))
                     (concat (map (replicate (nat (num_to_generate st))) (das_of_file env f2)))))" and
    ev: "(case oracle_eval_file st of
            None \<Rightarrow> ev = []
          | Some oracle_file \<Rightarrow>
              (\<exists>golds bests.
                 ttrees_from_doc (doc_of_file env oracle_file)
                     (planner_language env (sample_cfg f1)) (planner_selector env (sample_cfg f1))
                   = Inr golds
                 \<and> list_all2 (is_best env)
                     (zip golds
                        (chunk_list
                           (samples env (sample_cfg f1) (sample_gen_rng env f1 f2 (rng w))
                              (concat (map (replicate (nat (num_to_generate st))) (das_of_file env f2))))
                           (num_to_generate st)))
                     bests
                 \<and> ev = oracle_events env oracle_file (sum_counts bests)))"
    by blast
  have e1: "filter is_model_load ev = []" and e2: "filter is_planner_new ev = []"
    using ev by (cases "oracle_eval_file st"; auto simp: filter_oracle_events)+
  have "filter is_model_load (new_events w ?w') = [CandgenLoad f1]"
    using tr e1
    by (simp add: new_events_def filter_gen_events filter_write_events is_model_load_def)
  moreover have "filter is_planner_new (new_events w ?w')
      = [PlannerNew SamplingPlanner
           \<lparr>cfg_source = None,
            cfg_set = [(''candgen'', Obj (RandomCandidateGenerator [] (Loaded f1))),
                       (''ranker'', Obj (RandomCandidateGenerator [] (Loaded f1)))]\<rparr>]"
    using tr e2
    by (simp add: new_events_def filter_gen_events filter_write_events is_planner_new_def sample_cfg_def)
  ultimately show "\<exists>opts cand_model da_test.
           getopt args ''r:n:o:w:'' = Inr (opts, [cand_model, da_test])
           \<and> filter is_model_load (new_events w ?w') = [CandgenLoad cand_model]
           \<and> filter is_planner_new (new_events w ?w')
               = [PlannerNew SamplingPlanner
                    \<lparr>cfg_source = None,
                     cfg_set = [(''candgen'', Obj (RandomCandidateGenerator [] (Loaded cand_model))),
                                (''ranker'', Obj (RandomCandidateGenerator [] (Loaded cand_model)))]\<rparr>]"
    using g by blast
qed

theorem sample_gen_candgen_only_witness:
  "fst (sample_gen demo_env [''-n'', ''2'', ''-w'', ''out'', ''model'', ''das''] (start 0)) = Inr ()
   \<and> filter is_model_load
         (new_events (start 0)
            (snd (sample_gen demo_env [''-n'', ''2'', ''-w'', ''out'', ''model'', ''das''] (start 0))))
       = [CandgenLoad ''model'']
   \<and> filter is_planner_new
         (new_events (start 0)
            (snd (sample_gen demo_env [''-n'', ''2'', ''-w'', ''out'', ''model'', ''das''] (start 0))))
       = [PlannerNew SamplingPlanner
            \<lparr>cfg_source = None,
             cfg_set = [(''candgen'', Obj (RandomCandidateGenerator [] (Loaded ''model''))),
                        (''ranker'', Obj (RandomCandidateGenerator [] (Loaded ''model'')))]\<rparr>]
   \<and> list_all sampling_event
         (new_events (start 0)
            (snd (sample_gen demo_env [''-n'', ''2'', ''-w'', ''out'', ''model'', ''das''] (start 0))))"
  using sample_gen_candgen_only
      [of demo_env "[''-n'', ''2'', ''-w'', ''out'', ''model'', ''das'']" "start 0"]
  by (simp add: demo_sample_run_w new_events_def start_fields is_model_load_def is_planner_new_def
      sampling_event_def candgen_only_def sample_cfg_def)

subsection \<open>C4: the random generator is seeded first, with 1206\<close>

text \<open>
  C4. The entry point seeds the process-wide random generator with 1206 before anything
  else: the seeding is the first event of every run and the only seeding. Hence the
  outcome of a run, its trace (with the written documents) and the final state do not
  depend on the state the generator was in before: two runs with the same environment
  (model files, configuration, input files, and planners that are functions of their
  inputs and of the generator state) and the same command line are identical.
\<close>

theorem main_seeds_first:
  "main env argv (w\<lparr>rng := r1\<rparr>) = main env argv (w\<lparr>rng := r2\<rparr>)
   \<and> (\<exists>tr. trace (snd (main env argv w)) = trace w @ RandomSeed 1206 # tr
          \<and> list_all (\<lambda>e. \<not> is_seed e) tr)"
proof
  show "main env argv (w\<lparr>rng := r1\<rparr>) = main env argv (w\<lparr>rng := r2\<rparr>)"
    by (simp add: main_def bnd_def random_seed_def)
next
  let ?P = "\<lambda>e::'a event. \<not> is_seed e"
  let ?rest = "if length argv < 3 then sys_exit doc
     else
       let action = argv ! 1; args = drop 2 argv in
       bnd (log_info ''Running on %s version %s''
              [S (python_implementation env), S (python_version env)]) (\<lambda>_.
       bnd (if action = ''candgen_train'' then candgen_train env args
            else if action = ''percrank_train'' then percrank_train env args
            else if action = ''random_gen'' then sample_gen env args
            else if action = ''asearch_gen'' then asearch_gen env args
            else sys_exit ([CHR 0x0A] @ ''ERROR: Unknown Tgen action: '' @ action
                           @ [CHR 0x0A, CHR 0x0A] @ ''---'' @ doc)) (\<lambda>_.
       log_info ''Done.'' []))"
  let ?w0 = "w\<lparr>rng := seed_state env 1206, trace := trace w @ [RandomSeed 1206]\<rparr>"
  have m: "main env argv w = ?rest ?w0"
    by (simp add: main_def bnd_def random_seed_def)
  have "emits ?P ?rest"
    unfolding Let_def
    by (auto intro!: emits_intros emits_candgen_train emits_percrank_train emits_sample_gen
        emits_asearch_gen simp: is_seed_def)
  then obtain tr where "trace (snd (?rest ?w0)) = trace ?w0 @ tr" "list_all ?P tr"
    unfolding emits_def by blast
  with m show "\<exists>tr. trace (snd (main env argv w)) = trace w @ RandomSeed 1206 # tr
          \<and> list_all (\<lambda>e. \<not> is_seed e) tr"
    by auto
qed

theorem main_seeds_first_witness:
  "main demo_env [''tgen.py'', ''candgen_train'', ''-p'', ''3'', ''a'', ''b'', ''c''] (start 0)
     = main demo_env [''tgen.py'', ''candgen_train'', ''-p'', ''3'', ''a'', ''b'', ''c''] (start 7)
   \<and> hd (trace (snd (main demo_env [''tgen.py'', ''candgen_train'', ''-p'', ''3'', ''a'', ''b'', ''c'']
                       (start 0)))) = RandomSeed 1206
   \<and> filter is_seed (trace (snd (main demo_env
         [''tgen.py'', ''candgen_train'', ''-p'', ''3'', ''a'', ''b'', ''c''] (start 0))))
       = [RandomSeed 1206]"
  using main_seeds_first
      [of demo_env "[''tgen.py'', ''candgen_train'', ''-p'', ''3'', ''a'', ''b'', ''c'']" 0 "start 0" 7]
  by (simp add: demo_main_run [of 0, unfolded start_def] demo_main_run [of 7, unfolded start_def]
      start_def is_seed_def)

subsection \<open>C5: a wrong number of file arguments\<close>

text \<open>
  C5, as stated, fails: options are converted before the files are counted, so with a
  wrong number of files and a \<open>-p\<close> value that is no integer, \<open>candgen_train\<close> ends
  with the \<open>ValueError\<close> of \<open>int\<close>, not with \<open>sys.exit\<close> and the usage text.
\<close>

theorem wrong_file_count_counterexample:
  "getopt [''-p'', ''x'', ''a''] ''p:'' = Inr ([(''-p'', ''x'')], [''a''])
   \<and> length [''a''] \<noteq> (3::nat)
   \<and> candgen_train demo_env [''-p'', ''x'', ''a''] (start 0) = (Inl (ValueError ''x''), start 0)
   \<and> fst (candgen_train demo_env [''-p'', ''x'', ''a''] (start 0)) \<noteq> Inl (SystemExit doc)"
  by (simp add: demo_getopt_wrong_counts candgen_train_def demo_dec_int run_defs demo_env_def)

text \<open>
  C5, amended. For every action, when \<open>getopt\<close> accepts the command line and the number
  of positional file arguments differs from the required one (3 for \<open>candgen_train\<close>,
  4 for \<open>percrank_train\<close>, 2 for \<open>sample_gen\<close>, 3 for \<open>asearch_gen\<close>), no model is
  loaded, trained or saved: the only calls made are the openings of a \<open>-d\<close> debug
  stream. When moreover the option loop completes (every option value converts and
  every debug stream opens), the process terminates via \<open>sys.exit\<close> with the usage text,
  which \<open>asearch_gen\<close> prefixes with \<open>Invalid arguments.\<close> and a newline.
\<close>

theorem wrong_file_count_exits:
  "(getopt args ''p:'' = Inr (opts, files) \<and> length files \<noteq> 3 \<longrightarrow>
      snd (candgen_train env args w) = w
      \<and> (\<forall>pt. candgen_train_opts env opts 1 = Inr pt \<longrightarrow>
            fst (candgen_train env args w) = Inl (SystemExit doc)))
   \<and> (getopt args ''c:d:s:j:w:'' = Inr (opts, files) \<and> length files \<noteq> 4 \<longrightarrow>
      (\<exists>tr. trace (snd (percrank_train env args w)) = trace w @ tr \<and> list_all is_debug_stream tr)
      \<and> (\<forall>st w1. percrank_train_opts env opts percrank_start w = (Inr st, w1) \<longrightarrow>
            percrank_train env args w = (Inl (SystemExit doc), w1)))
   \<and> (getopt args ''r:n:o:w:'' = Inr (opts, files) \<and> length files \<noteq> 2 \<longrightarrow>
      snd (sample_gen env args w) = w
      \<and> (\<forall>st. sample_gen_opts env opts sample_start = Inr st \<longrightarrow>
            fst (sample_gen env args w) = Inl (SystemExit doc)))
   \<and> (getopt args ''e:d:w:c:'' = Inr (opts, files) \<and> length files \<noteq> 3 \<longrightarrow>
      (\<exists>tr. trace (snd (asearch_gen env args w)) = trace w @ tr \<and> list_all is_debug_stream tr)
      \<and> (\<forall>st w1. asearch_gen_opts env opts asearch_start w = (Inr st, w1) \<longrightarrow>
            asearch_gen env args w =
              (Inl (SystemExit (''Invalid arguments.'' @ [CHR 0x0A] @ doc)), w1)))"
proof (intro conjI impI)
  assume a: "getopt args ''p:'' = Inr (opts, files) \<and> length files \<noteq> 3"
  then show "snd (candgen_train env args w) = w"
    by (cases "candgen_train_opts env opts 1")
       (auto simp: candgen_train_def bnd_lift_Inr bnd_lift_Inl raise_def sys_exit_def)
  from a show "\<forall>pt. candgen_train_opts env opts 1 = Inr pt \<longrightarrow>
            fst (candgen_train env args w) = Inl (SystemExit doc)"
    by (auto simp: candgen_train_def bnd_lift_Inr raise_def sys_exit_def)
next
  assume a: "getopt args ''c:d:s:j:w:'' = Inr (opts, files) \<and> length files \<noteq> 4"
  obtain r1 w1 where o: "percrank_train_opts env opts percrank_start w = (r1, w1)"
    by (cases "percrank_train_opts env opts percrank_start w")
  from a o have "snd (percrank_train env args w) = w1"
    by (cases r1)
       (auto simp: percrank_train_def bnd_def lift_def raise_def sys_exit_def percrank_start_def)
  with percrank_train_opts_trace [OF o]
  show "\<exists>tr. trace (snd (percrank_train env args w)) = trace w @ tr \<and> list_all is_debug_stream tr"
    by simp
  from a show "\<forall>st w1. percrank_train_opts env opts percrank_start w = (Inr st, w1) \<longrightarrow>
            percrank_train env args w = (Inl (SystemExit doc), w1)"
    by (auto simp: percrank_train_def bnd_def lift_def raise_def sys_exit_def percrank_start_def)
next
  assume a: "getopt args ''r:n:o:w:'' = Inr (opts, files) \<and> length files \<noteq> 2"
  then show "snd (sample_gen env args w) = w"
    by (cases "sample_gen_opts env opts sample_start")
       (auto simp: sample_gen_def bnd_lift_Inr bnd_lift_Inl raise_def sys_exit_def sample_start_def)
  from a show "\<forall>st. sample_gen_opts env opts sample_start = Inr st \<longrightarrow>
            fst (sample_gen env args w) = Inl (SystemExit doc)"
    by (auto simp: sample_gen_def bnd_lift_Inr raise_def sys_exit_def sample_start_def)
next
  assume a: "getopt args ''e:d:w:c:'' = Inr (opts, files) \<and> length files \<noteq> 3"
  obtain r1 w1 where o: "asearch_gen_opts env opts asearch_start w = (r1, w1)"
    by (cases "asearch_gen_opts env opts asearch_start w")
  from a o have "snd (asearch_gen env args w) = w1"
    by (cases r1)
       (auto simp: asearch_gen_def bnd_def lift_def raise_def sys_exit_def asearch_start_def)
  with asearch_gen_opts_trace [OF o]
  show "\<exists>tr. trace (snd (asearch_gen env args w)) = trace w @ tr \<and> list_all is_debug_stream tr"
    by simp
  from a show "\<forall>st w1. asearch_gen_opts env opts asearch_start w = (Inr st, w1) \<longrightarrow>
            asearch_gen env args w =
              (Inl (SystemExit (''Invalid arguments.'' @ [CHR 0x0A] @ doc)), w1)"
    by (auto simp: asearch_gen_def bnd_def lift_def raise_def sys_exit_def asearch_start_def)
qed

theorem wrong_file_count_exits_witness:
  "candgen_train demo_env [''a''] (start 0) = (Inl (SystemExit doc), start 0)
   \<and> percrank_train demo_env [''-d'', ''dbg'', ''a''] (start 0)
       = (Inl (SystemExit doc), \<lparr>rng = 2, trace = [SetDebugStream ''dbg''], heap = []\<rparr>)
   \<and> sample_gen demo_env [''a''] (start 0) = (Inl (SystemExit doc), start 0)
   \<and> asearch_gen demo_env [''a'', ''b''] (start 0)
       = (Inl (SystemExit (''Invalid arguments.'' @ [CHR 0x0A] @ doc)), start 0)"
proof -
  have c: "candgen_train demo_env [''a''] (start 0) = (Inl (SystemExit doc), start 0)"
    using wrong_file_count_exits [of "[''a'']" "[]" "[''a'']" demo_env "start 0"]
    by (simp add: demo_getopt_wrong_counts prod_eq_iff)
  have p: "percrank_train demo_env [''-d'', ''dbg'', ''a''] (start 0)
       = (Inl (SystemExit doc), \<lparr>rng = 2, trace = [SetDebugStream ''dbg''], heap = []\<rparr>)"
    using wrong_file_count_exits [of "[''-d'', ''dbg'', ''a'']" "[(''-d'', ''dbg'')]" "[''a'']"
        demo_env "start 0"]
    by (simp add: demo_getopt_wrong_counts percrank_start_def run_defs demo_env_def)
  have s: "sample_gen demo_env [''a''] (start 0) = (Inl (SystemExit doc), start 0)"
    using wrong_file_count_exits [of "[''a'']" "[]" "[''a'']" demo_env "start 0"]
    by (simp add: demo_getopt_wrong_counts prod_eq_iff)
  have a: "asearch_gen demo_env [''a'', ''b''] (start 0)
       = (Inl (SystemExit (''Invalid arguments.'' @ [CHR 0x0A] @ doc)), start 0)"
    using wrong_file_count_exits [of "[''a'', ''b'']" "[]" "[''a'', ''b'']" demo_env "start 0"]
    by (simp add: demo_getopt_wrong_counts asearch_start_def run_defs)
  from c p s a show ?thesis by blast
qed

subsection \<open>C6: \<open>candgen_train\<close> constructs, trains, then saves\<close>

text \<open>
  C6. On a command line with three files whose options convert, the prune threshold is
  the integer value of the last \<open>-p\<close> option, and 1 when there is none. The run logs,
  constructs the generator with that \<open>prune_threshold\<close>, then trains it on the two
  given files, then saves it to the third: training comes before saving, saving is
  attempted exactly when construction and training did not raise, and the run returns
  normally exactly when the save did not raise either.
\<close>

theorem candgen_train_prunes_trains_saves:
  assumes "getopt args ''p:'' = Inr (opts, [fname_da_train, fname_ttrees_train, fname_cand_model])"
    and "candgen_train_opts env opts 1 = Inr pt"
  shows "pt = (case filter (\<lambda>(opt, arg). opt = ''-p'') opts of
                 [] \<Rightarrow> 1
               | ps \<Rightarrow> the (py_int env (snd (last ps))))
    \<and> (let cfg = [(''prune_threshold'', pt)];
            t1 = trace w @ [LogInfo ''Training candidate generator...'' [], CandgenNew cfg];
            t2 = t1 @ [CandgenTrain fname_da_train fname_ttrees_train];
            t3 = t2 @ [CandgenSave (RandomCandidateGenerator cfg
                         (Trained fname_da_train fname_ttrees_train)) fname_cand_model];
            g1 = rng w;
            g2 = advance env (CandgenNew cfg) g1;
            g3 = advance env (CandgenTrain fname_da_train fname_ttrees_train) g2;
            (r, w') = candgen_train env args w
        in (case raises env t1 g1 of
              Some e \<Rightarrow> r = Inl e \<and> trace w' = t1
            | None \<Rightarrow>
               (case raises env t2 g2 of
                  Some e \<Rightarrow> r = Inl e \<and> trace w' = t2
                | None \<Rightarrow>
                    trace w' = t3
                    \<and> r = (case raises env t3 g3 of Some e \<Rightarrow> Inl e | None \<Rightarrow> Inr ()))))"
proof
  show "pt = (case filter (\<lambda>(opt, arg). opt = ''-p'') opts of
                 [] \<Rightarrow> 1
               | ps \<Rightarrow> the (py_int env (snd (last ps))))"
    using assms(2) by (rule candgen_train_opts_last)
next
  show "(let cfg = [(''prune_threshold'', pt)];
            t1 = trace w @ [LogInfo ''Training candidate generator...'' [], CandgenNew cfg];
            t2 = t1 @ [CandgenTrain fname_da_train fname_ttrees_train];
            t3 = t2 @ [CandgenSave (RandomCandidateGenerator cfg
                         (Trained fname_da_train fname_ttrees_train)) fname_cand_model];
            g1 = rng w;
            g2 = advance env (CandgenNew cfg) g1;
            g3 = advance env (CandgenTrain fname_da_train fname_ttrees_train) g2;
            (r, w') = candgen_train env args w
        in (case raises env t1 g1 of
              Some e \<Rightarrow> r = Inl e \<and> trace w' = t1
            | None \<Rightarrow>
               (case raises env t2 g2 of
                  Some e \<Rightarrow> r = Inl e \<and> trace w' = t2
                | None \<Rightarrow>
                    trace w' = t3
                    \<and> r = (case raises env t3 g3 of Some e \<Rightarrow> Inl e | None \<Rightarrow> Inr ()))))"
    using assms
    by (simp add: candgen_train_def run_defs split: option.splits)
qed

theorem candgen_train_prunes_trains_saves_witness:
  "getopt [''-p'', ''3'', ''a'', ''b'', ''c''] ''p:'' = Inr ([(''-p'', ''3'')], [''a'', ''b'', ''c''])
   \<and> candgen_train_opts demo_env [(''-p'', ''3'')] 1 = Inr 3
   \<and> candgen_train demo_env [''-p'', ''3'', ''a'', ''b'', ''c''] (start 0) =
       (Inr (),
        \<lparr>rng = 6,
         trace = [LogInfo ''Training candidate generator...'' [],
                  CandgenNew [(''prune_threshold'', 3)],
                  CandgenTrain ''a'' ''b'',
                  CandgenSave (RandomCandidateGenerator [(''prune_threshold'', 3)] (Trained ''a'' ''b'')) ''c''],
         heap = []\<rparr>)"
proof -
  have g: "getopt [''-p'', ''3'', ''a'', ''b'', ''c''] ''p:'' = Inr ([(''-p'', ''3'')], [''a'', ''b'', ''c''])"
    by (simp add: demo_getopt_wrong_counts)
  have o: "candgen_train_opts demo_env [(''-p'', ''3'')] 1 = Inr 3"
    by (simp add: demo_env_def demo_dec_int)
  have run: "candgen_train demo_env [''-p'', ''3'', ''a'', ''b'', ''c''] (start 0) =
       (Inr (),
        \<lparr>rng = 6,
         trace = [LogInfo ''Training candidate generator...'' [],
                  CandgenNew [(''prune_threshold'', 3)],
                  CandgenTrain ''a'' ''b'',
                  CandgenSave (RandomCandidateGenerator [(''prune_threshold'', 3)] (Trained ''a'' ''b'')) ''c''],
         heap = []\<rparr>)"
    by (simp add: candgen_train_def g demo_dec_int run_defs demo_env_def)
  from candgen_train_prunes_trains_saves [OF g o, of "start 0"] g o run
  show ?thesis by simp
qed

subsection \<open>C8: the dispatcher knows \<open>random_gen\<close>, not \<open>sample_gen\<close>\<close>

text \<open>
  C8. With an action and at least one argument on the command line, the entry point runs
  \<open>sample_gen\<close> on the remaining arguments when the action is named \<open>random_gen\<close>.
  The name \<open>sample_gen\<close>, which is the one the usage text documents (the usage text
  does not contain \<open>random_gen\<close>), matches no branch: the process exits with the
  unknown-action message followed by the usage text, and the only things done before are
  seeding the random generator and logging the platform, so nothing is generated.
\<close>

theorem sample_gen_not_dispatched:
  assumes "3 \<le> length argv"
  shows "(argv ! 1 = ''random_gen'' \<longrightarrow>
           main env argv w =
             bnd (sample_gen env (drop 2 argv)) (\<lambda>_. log_info ''Done.'' [])
               (w\<lparr>rng := seed_state env 1206,
                  trace := trace w @ [RandomSeed 1206,
                    LogInfo ''Running on %s version %s''
                      [S (python_implementation env), S (python_version env)]]\<rparr>))
       \<and> (argv ! 1 = ''sample_gen'' \<longrightarrow>
           main env argv w =
             (Inl (SystemExit ([CHR 0x0A] @ ''ERROR: Unknown Tgen action: sample_gen''
                               @ [CHR 0x0A, CHR 0x0A] @ ''---'' @ doc)),
              w\<lparr>rng := seed_state env 1206,
                 trace := trace w @ [RandomSeed 1206,
                   LogInfo ''Running on %s version %s''
                     [S (python_implementation env), S (python_version env)]]\<rparr>))
       \<and> sublist ''sample_gen'' doc \<and> \<not> sublist ''random_gen'' doc"
proof (intro conjI impI)
  assume "argv ! 1 = ''random_gen''"
  with assms show "main env argv w =
             bnd (sample_gen env (drop 2 argv)) (\<lambda>_. log_info ''Done.'' [])
               (w\<lparr>rng := seed_state env 1206,
                  trace := trace w @ [RandomSeed 1206,
                    LogInfo ''Running on %s version %s''
                      [S (python_implementation env), S (python_version env)]]\<rparr>)"
    by (simp add: main_def bnd_def random_seed_def log_info_def emit_def)
next
  assume "argv ! 1 = ''sample_gen''"
  with assms show "main env argv w =
             (Inl (SystemExit ([CHR 0x0A] @ ''ERROR: Unknown Tgen action: sample_gen''
                               @ [CHR 0x0A, CHR 0x0A] @ ''---'' @ doc)),
              w\<lparr>rng := seed_state env 1206,
                 trace := trace w @ [RandomSeed 1206,
                   LogInfo ''Running on %s version %s''
                     [S (python_implementation env), S (python_version env)]]\<rparr>)"
    by (simp add: main_def bnd_def random_seed_def log_info_def emit_def sys_exit_def raise_def)
next
  show "sublist ''sample_gen'' doc" by code_simp
next
  show "\<not> sublist ''random_gen'' doc" by code_simp
qed

theorem sample_gen_not_dispatched_witness:
  "main demo_env [''tgen.py'', ''sample_gen'', ''model'', ''das''] (start 0) =
     (Inl (SystemExit ([CHR 0x0A] @ ''ERROR: Unknown Tgen action: sample_gen''
                       @ [CHR 0x0A, CHR 0x0A] @ ''---'' @ doc)),
      \<lparr>rng = 1206,
       trace = [RandomSeed 1206, LogInfo ''Running on %s version %s'' [S ''CPython'', S ''2.7.6'']],
       heap = []\<rparr>)
   \<and> main demo_env [''tgen.py'', ''random_gen'', ''model'', ''das''] (start 0) =
       bnd (sample_gen demo_env [''model'', ''das'']) (\<lambda>_. log_info ''Done.'' [])
         \<lparr>rng = 1206,
          trace = [RandomSeed 1206, LogInfo ''Running on %s version %s'' [S ''CPython'', S ''2.7.6'']],
          heap = []\<rparr>"
  using sample_gen_not_dispatched [of "[''tgen.py'', ''sample_gen'', ''model'', ''das'']" demo_env "start 0"]
    sample_gen_not_dispatched [of "[''tgen.py'', ''random_gen'', ''model'', ''das'']" demo_env "start 0"]
  by (simp add: start_def demo_env_def)

subsection \<open>C9: \<open>asearch_gen\<close> does not accept \<open>-s\<close>\<close>

text \<open>
  C9. The option string \<open>e:d:w:c:\<close> of \<open>asearch_gen\<close> has no \<open>s\<close>. Whenever the
  command line holds a \<open>-s\<close> option, that is, whenever parsing it with the documented
  options \<open>e:s:d:w:c:\<close> succeeds and yields a \<open>-s\<close>, \<open>asearch_gen\<close> raises
  \<open>GetoptError\<close> for option \<open>s\<close> before doing anything. When \<open>getopt\<close> succeeds
  with the real option string, no \<open>-s\<close> is among the options, so the branch that
  assigns \<open>eval_selector\<close> is never taken, and in every run that returns normally
  \<open>eval_selector\<close> is the empty string.
\<close>

theorem asearch_gen_rejects_s:
  "(getopt args ''e:s:d:w:c:'' = Inr (opts, files) \<and> ''-s'' \<in> fst ` set opts \<longrightarrow>
      asearch_gen env args w = (Inl (GetoptError ''option -s not recognized'' ''s''), w))
   \<and> (getopt args ''e:d:w:c:'' = Inr (opts, files) \<longrightarrow>
        ''-s'' \<notin> fst ` set opts
        \<and> (\<forall>st w1. asearch_gen_opts env opts asearch_start w = (Inr st, w1) \<longrightarrow> eval_selector st = []))
   \<and> (fst (asearch_gen env args w) = Inr () \<longrightarrow>
        (\<exists>opts files st w1. getopt args ''e:d:w:c:'' = Inr (opts, files)
           \<and> asearch_gen_opts env opts asearch_start w = (Inr st, w1) \<and> eval_selector st = []))"
proof (intro conjI impI)
  assume a: "getopt args ''e:s:d:w:c:'' = Inr (opts, files) \<and> ''-s'' \<in> fst ` set opts"
  then have "getopt args ''e:d:w:c:'' = Inl (GetoptError ''option -s not recognized'' ''s'')"
    using getopt_loop_without_s [of "[]" args opts files] by (simp add: getopt_def)
  then show "asearch_gen env args w = (Inl (GetoptError ''option -s not recognized'' ''s''), w)"
    by (simp add: asearch_gen_def bnd_lift_Inl raise_def)
next
  assume a: "getopt args ''e:d:w:c:'' = Inr (opts, files)"
  then show "''-s'' \<notin> fst ` set opts"
    using getopt_loop_names [of "[]" args opts files] by (auto simp: getopt_def)
next
  assume a: "getopt args ''e:d:w:c:'' = Inr (opts, files)"
  then have ns: "''-s'' \<notin> fst ` set opts"
    using getopt_loop_names [of "[]" args opts files] by (auto simp: getopt_def)
  show "\<forall>st w1. asearch_gen_opts env opts asearch_start w = (Inr st, w1) \<longrightarrow> eval_selector st = []"
    using asearch_gen_opts_selector [OF _ ns, of env asearch_start w]
    by (auto simp: asearch_start_def)
next
  assume ok: "fst (asearch_gen env args w) = Inr ()"
  then obtain os fs where g: "getopt args ''e:d:w:c:'' = Inr (os, fs)"
    by (cases "getopt args ''e:d:w:c:''") (auto simp: asearch_gen_def bnd_lift_Inl raise_def)
  then have ns: "''-s'' \<notin> fst ` set os"
    using getopt_loop_names [of "[]" args os fs] by (auto simp: getopt_def)
  from ok obtain st w1 where o: "asearch_gen_opts env os asearch_start w = (Inr st, w1)"
    unfolding asearch_gen_def g bnd_lift_Inr asearch_start_def
    by (auto dest: bnd_fst_Inr)
  from asearch_gen_opts_selector [OF o ns] have "eval_selector st = []"
    by (simp add: asearch_start_def)
  with g o show "\<exists>opts files st w1. getopt args ''e:d:w:c:'' = Inr (opts, files)
           \<and> asearch_gen_opts env opts asearch_start w = (Inr st, w1) \<and> eval_selector st = []"
    by blast
qed

theorem asearch_gen_rejects_s_witness:
  "asearch_gen demo_env [''-s'', ''x'', ''model'', ''rank'', ''das''] (start 0)
     = (Inl (GetoptError ''option -s not recognized'' ''s''), start 0)
   \<and> (\<exists>opts files st w1.
         getopt [''model'', ''rank'', ''das''] ''e:d:w:c:'' = Inr (opts, files)
         \<and> asearch_gen_opts demo_env opts asearch_start (start 0) = (Inr st, w1)
         \<and> eval_selector st = [])"
  using asearch_gen_rejects_s [of "[''-s'', ''x'', ''model'', ''rank'', ''das'']"
      "[(''-s'', ''x'')]" "[''model'', ''rank'', ''das'']" demo_env "start 0"]
    asearch_gen_rejects_s [of "[''model'', ''rank'', ''das'']"
      "[]" "[''model'', ''rank'', ''das'']" demo_env "start 0"]
    demo_getopt_s demo_getopt_plain demo_asearch_run
  by simp

subsection \<open>C10: \<open>sample_gen\<close> accepts \<open>-r\<close> and ignores it\<close>

text \<open>
  C10. The option string \<open>r:n:o:w:\<close> of \<open>sample_gen\<close> accepts \<open>-r\<close> with an
  argument and no branch of the option loop reads it. After any sequence of options,
  adding \<open>-r\<close> with any argument, as two words or glued into one, gives the same run of
  \<open>sample_gen\<close>: the same result and the same effects from every starting state.
\<close>

theorem sample_gen_ignores_r:
  assumes "\<forall>(c, a) \<in> set pre. c \<in> set ''rnow''"
  shows "sample_gen env (option_args pre @ ''-r'' # x # rest) = sample_gen env (option_args pre @ rest)
       \<and> sample_gen env (option_args pre @ (CHR ''-'' # CHR ''r'' # y # ys) # rest)
           = sample_gen env (option_args pre @ rest)"
proof -
  let ?so = "''r:n:o:w:''"
  let ?P = "map (\<lambda>(c, a). ([CHR ''-'', c], a)) pre"
  have base: "getopt (option_args pre @ rest) ?so
      = map_sum id (\<lambda>(o', a). (?P @ o', a)) (getopt_loop [] rest ?so)"
    using getopt_loop_option_args [OF assms, of "[]" rest] getopt_loop_acc [of ?P "[]" rest ?so]
    by (simp add: getopt_def)
  have sep: "getopt (option_args pre @ ''-r'' # x # rest) ?so
      = map_sum id (\<lambda>(o', a). (?P @ (''-r'', x) # o', a)) (getopt_loop [] rest ?so)"
    using getopt_loop_option_args [OF assms, of "[]" "''-r'' # x # rest"]
      getopt_loop_acc [of "?P @ [(''-r'', x)]" "[]" rest ?so]
    by (simp add: getopt_def)
  have glued: "getopt (option_args pre @ (CHR ''-'' # CHR ''r'' # y # ys) # rest) ?so
      = map_sum id (\<lambda>(o', a). (?P @ (''-r'', y # ys) # o', a)) (getopt_loop [] rest ?so)"
    using getopt_loop_option_args [OF assms, of "[]" "(CHR ''-'' # CHR ''r'' # y # ys) # rest"]
      getopt_loop_acc [of "?P @ [(''-r'', y # ys)]" "[]" rest ?so]
    by (simp add: getopt_def)
  have s1: "sample_gen env (option_args pre @ ''-r'' # x # rest) = sample_gen env (option_args pre @ rest)"
    by (rule sample_gen_from_getopt [OF sep base])
  have s2: "sample_gen env (option_args pre @ (CHR ''-'' # CHR ''r'' # y # ys) # rest)
           = sample_gen env (option_args pre @ rest)"
    by (rule sample_gen_from_getopt [OF glued base])
  from s1 s2 show ?thesis by (rule conjI)
qed

theorem sample_gen_ignores_r_witness:
  "sample_gen demo_env [''-n'', ''2'', ''-r'', ''7'', ''model'', ''das'']
     = sample_gen demo_env [''-n'', ''2'', ''model'', ''das'']
   \<and> sample_gen demo_env [''-n'', ''2'', ''-r7'', ''model'', ''das'']
     = sample_gen demo_env [''-n'', ''2'', ''model'', ''das'']"
  using sample_gen_ignores_r [of "[(CHR ''n'', ''2'')]" demo_env "''7''" "[''model'', ''das'']" "CHR ''7''" "[]"]
  by (simp add: option_args_def)

end
